theory Spec2Isabelle
  imports Complex_Main "HOL-Library.Log_Nat" "HOL-Library.Word" "HOL-Library.AList"
begin

section \<open>Python floats\<close>

text \<open>
  A Python \<^verbatim>\<open>float\<close> is an IEEE 754 binary64 value. A finite one is kept as the
  rational number it denotes; the two infinities and NaN are values of their own. The sign
  of a zero is not kept: the program only adds, multiplies, compares and rounds, and none
  of these gives a different non-zero result, or a different comparison, for \<^verbatim>\<open>-0.0\<close>.
\<close>

datatype pyfloat = Fin rat | PInf | NInf | NaN

definition pow2 :: "int \<Rightarrow> rat" where
  "pow2 k = (if 0 \<le> k then 2 ^ nat k else 1 / 2 ^ nat (- k))"

text \<open>The position of the leading bit of a positive rational: \<open>\<lfloor>log\<^sub>2 x\<rfloor>\<close>.\<close>

definition floor_log2 :: "rat \<Rightarrow> int" where
  "floor_log2 x =
     (if 1 \<le> \<bar>x\<bar> then bitlen \<lfloor>\<bar>x\<bar>\<rfloor> - 1
      else - bitlen (\<lceil>1 / \<bar>x\<bar>\<rceil> - 1))"

text \<open>Rounding to an integer, a tie going to the even neighbour.\<close>

definition round_half_even :: "rat \<Rightarrow> int" where
  "round_half_even x =
     (let f = \<lfloor>x\<rfloor>; d = x - of_int f
      in if d < 1 / 2 then f
         else if 1 / 2 < d then f + 1
         else if even f then f else f + 1)"

text \<open>
  The exponent of the last place of the binary64 numbers around \<open>x\<close>: 53 significant bits,
  and no finer than \<open>2\<^sup>-\<^sup>1\<^sup>0\<^sup>7\<^sup>4\<close> (the subnormal range).
\<close>

definition ulp_exp :: "rat \<Rightarrow> int" where
  "ulp_exp x = max (- 1074) (floor_log2 x - 52)"

text \<open>
  Round to nearest, ties to even, into binary64: the rounding of every arithmetic
  operation of the hardware. A result of magnitude \<open>2\<^sup>1\<^sup>0\<^sup>2\<^sup>4\<close> or more is an infinity.
\<close>

definition rn :: "rat \<Rightarrow> pyfloat" where
  "rn x =
     (if x = 0 then Fin 0
      else let e = ulp_exp x; y = of_int (round_half_even (x / pow2 e)) * pow2 e
           in if 2 ^ 1024 \<le> y then PInf
              else if y \<le> - (2 ^ 1024) then NInf
              else Fin y)"

text \<open>\<^verbatim>\<open>a + b\<close> on floats.\<close>

fun float_add :: "pyfloat \<Rightarrow> pyfloat \<Rightarrow> pyfloat" where
  "float_add NaN _ = NaN"
| "float_add _ NaN = NaN"
| "float_add PInf NInf = NaN"
| "float_add NInf PInf = NaN"
| "float_add PInf _ = PInf"
| "float_add _ PInf = PInf"
| "float_add NInf _ = NInf"
| "float_add _ NInf = NInf"
| "float_add (Fin a) (Fin b) = rn (a + b)"

text \<open>\<^verbatim>\<open>a * b\<close> on floats.\<close>

fun float_mul :: "pyfloat \<Rightarrow> pyfloat \<Rightarrow> pyfloat" where
  "float_mul NaN _ = NaN"
| "float_mul _ NaN = NaN"
| "float_mul (Fin a) (Fin b) = rn (a * b)"
| "float_mul (Fin a) PInf = (if a = 0 then NaN else if 0 < a then PInf else NInf)"
| "float_mul (Fin a) NInf = (if a = 0 then NaN else if 0 < a then NInf else PInf)"
| "float_mul PInf (Fin b) = (if b = 0 then NaN else if 0 < b then PInf else NInf)"
| "float_mul NInf (Fin b) = (if b = 0 then NaN else if 0 < b then NInf else PInf)"
| "float_mul PInf PInf = PInf"
| "float_mul PInf NInf = NInf"
| "float_mul NInf PInf = NInf"
| "float_mul NInf NInf = PInf"

text \<open>\<^verbatim>\<open>x < n\<close> and \<^verbatim>\<open>x >= n\<close> for a float \<open>x\<close> and an integer \<open>n\<close>: Python compares the
  exact values, and every comparison with NaN is false.\<close>

fun float_lt_int :: "pyfloat \<Rightarrow> int \<Rightarrow> bool" where
  "float_lt_int (Fin a) n = (a < of_int n)"
| "float_lt_int NInf n = True"
| "float_lt_int PInf n = False"
| "float_lt_int NaN n = False"

fun float_ge_int :: "pyfloat \<Rightarrow> int \<Rightarrow> bool" where
  "float_ge_int (Fin a) n = (of_int n \<le> a)"
| "float_ge_int PInf n = True"
| "float_ge_int NInf n = False"
| "float_ge_int NaN n = False"


section \<open>Exceptions and values\<close>

text \<open>
  The exceptions the handlers can see. \<open>HTTPException\<close> is FastAPI's, with its status code
  and detail. Where the source passes \<^verbatim>\<open>str(e)\<close> on, the text of an exception of a library
  is kept as the exception itself (\<open>StrOf e\<close>); \<open>Text\<close> is a string the source builds.
\<close>

datatype py_exn =
    TypeError
  | ValueError
  | OverflowError
  | InvalidId string
  | ValidationError
  | DatabaseError
  | HTTPException nat detail
and detail = Text string | StrOf py_exn

text \<open>The values of a document's fields and of a JSON response.\<close>

datatype pyval =
    VNone
  | VBool bool
  | VInt int
  | VFloat pyfloat
  | VStr string
  | VList "pyval list"
  | VDict "(string \<times> pyval) list"

type_synonym fields = "(string \<times> pyval) list"

text \<open>\<^verbatim>\<open>d.get(k, default)\<close>\<close>

definition dict_get :: "fields \<Rightarrow> string \<Rightarrow> pyval \<Rightarrow> pyval" where
  "dict_get d k dflt = (case map_of d k of None \<Rightarrow> dflt | Some v \<Rightarrow> v)"

text \<open>
  \<^verbatim>\<open>float(n)\<close> for an integer, also the conversion of the integer operand of
  \<^verbatim>\<open>float * int\<close>: correctly rounded, \<^verbatim>\<open>OverflowError\<close> when out of range.
\<close>

definition float_of_int :: "int \<Rightarrow> py_exn + pyfloat" where
  "float_of_int n = (case rn (of_int n) of Fin r \<Rightarrow> Inr (Fin r) | _ \<Rightarrow> Inl OverflowError)"

text \<open>
  \<^verbatim>\<open>float(v)\<close>. What \<^verbatim>\<open>float\<close> makes of a string is the parameter \<open>strtod\<close>
  (\<open>None\<close>: the string is no number, \<^verbatim>\<open>ValueError\<close>).
\<close>

fun py_float :: "(string \<Rightarrow> pyfloat option) \<Rightarrow> pyval \<Rightarrow> py_exn + pyfloat" where
  "py_float strtod (VFloat f) = Inr f"
| "py_float strtod (VInt n) = float_of_int n"
| "py_float strtod (VBool b) = Inr (Fin (if b then 1 else 0))"
| "py_float strtod (VStr s) = (case strtod s of None \<Rightarrow> Inl ValueError | Some f \<Rightarrow> Inr f)"
| "py_float strtod VNone = Inl TypeError"
| "py_float strtod (VList _) = Inl TypeError"
| "py_float strtod (VDict _) = Inl TypeError"

text \<open>
  \<^verbatim>\<open>round(x, 2)\<close>: the exact value of \<open>x\<close> is rounded to two decimals, ties to even, and
  the decimal is read back as the nearest float; infinities and NaN round to themselves.
\<close>

definition round2 :: "pyfloat \<Rightarrow> py_exn + pyfloat" where
  "round2 x =
     (case x of
        Fin a \<Rightarrow>
          (case rn (of_int (round_half_even (a * 100)) / 100) of
             Fin r \<Rightarrow> Inr (Fin r)
           | _ \<Rightarrow> Inl OverflowError)
      | _ \<Rightarrow> Inr x)"

section \<open>Object identifiers\<close>

type_synonym byte = "8 word"
type_synonym oid = "byte list"

definition isspace :: "char \<Rightarrow> bool" where
  "isspace c = (let n = (of_char c :: nat) in n = 32 \<or> (9 \<le> n \<and> n \<le> 13))"

definition digit_value :: "char \<Rightarrow> nat option" where
  "digit_value c =
     (let n = (of_char c :: nat)
      in if 48 \<le> n \<and> n \<le> 57 then Some (n - 48)
         else if 97 \<le> n \<and> n \<le> 102 then Some (n - 87)
         else if 65 \<le> n \<and> n \<le> 70 then Some (n - 55)
         else None)"

text \<open>\<^verbatim>\<open>bytes.fromhex\<close>: pairs of hex digits, white space between the pairs skipped.\<close>

fun fromhex :: "string \<Rightarrow> byte list option" where
  "fromhex [] = Some []"
| "fromhex (c # cs) =
     (if isspace c then fromhex cs
      else case digit_value c of
        None \<Rightarrow> None
      | Some hi \<Rightarrow>
          (case cs of
             [] \<Rightarrow> None
           | d # ds \<Rightarrow>
               (case digit_value d of
                  None \<Rightarrow> None
                | Some lo \<Rightarrow> map_option ((#) (of_nat (16 * hi + lo))) (fromhex ds))))"

text \<open>\<^verbatim>\<open>ObjectId(s)\<close> for a string: 24 characters that \<^verbatim>\<open>bytes.fromhex\<close> accepts, or
  \<^verbatim>\<open>InvalidId\<close>.\<close>

definition ObjectId :: "string \<Rightarrow> py_exn + oid" where
  "ObjectId s =
     (if length s = 24
      then (case fromhex s of None \<Rightarrow> Inl (InvalidId s) | Some b \<Rightarrow> Inr b)
      else Inl (InvalidId s))"

definition hexdigit :: "nat \<Rightarrow> char" where
  "hexdigit n = ''0123456789abcdef'' ! n"

text \<open>\<^verbatim>\<open>str(oid)\<close>: the bytes in lower-case hex.\<close>

definition oid_str :: "oid \<Rightarrow> string" where
  "oid_str i = concat (map (\<lambda>b. [hexdigit (unat b div 16), hexdigit (unat b mod 16)]) i)"


section \<open>The document store\<close>

text \<open>
  A dictionary read from the store: the entry \<^verbatim>\<open>"_id"\<close>, the only one that holds an
  \<^verbatim>\<open>ObjectId\<close>, is kept apart from the other entries.
\<close>

record pydoc =
  doc_id :: "oid option"
  doc_fields :: fields

text \<open>
  Modelled from the spec: the module \<^verbatim>\<open>database\<close> (\<^verbatim>\<open>db\<close>, \<^verbatim>\<open>create_document\<close>,
  \<^verbatim>\<open>get_documents\<close>) and the driver behind it are not among the sources. The spec has
  "generic create/read operations against named collections", the persisted state as
  collections, "each a mapping from generated identifier to a structured record", and a
  store that may be unreachable, every operation on it then failing. The handle \<^verbatim>\<open>db\<close> is
  \<^verbatim>\<open>None\<close> when no store is configured (\<^verbatim>\<open>test_database\<close> tests for it).
\<close>

record database =
  reachable :: bool
  next_id :: nat
  collections :: "(string \<times> (oid \<times> fields) list) list"

type_synonym store = "database option"

definition collection :: "database \<Rightarrow> string \<Rightarrow> (oid \<times> fields) list" where
  "collection d name = (case map_of (collections d) name of None \<Rightarrow> [] | Some ds \<Rightarrow> ds)"

text \<open>Modelled from the spec: the generated identifier, twelve bytes counting up.\<close>

definition new_oid :: "nat \<Rightarrow> oid" where
  "new_oid n = map (\<lambda>i. of_nat (n div 256 ^ (11 - i))) [0..<12]"

definition insert_one :: "database \<Rightarrow> string \<Rightarrow> fields \<Rightarrow> database" where
  "insert_one d name data =
     d\<lparr>next_id := Suc (next_id d),
       collections :=
         AList.update name (collection d name @ [(new_oid (next_id d), data)]) (collections d)\<rparr>"

text \<open>
  What the driver can encode for the store: an integer of a document takes at most eight
  bytes. An attempt to write a larger one is an \<^verbatim>\<open>OverflowError\<close> of the driver's.
\<close>

fun bson_ok :: "pyval \<Rightarrow> bool" where
  "bson_ok (VInt n) = (- (2 ^ 63) \<le> n \<and> n < 2 ^ 63)"
| "bson_ok (VList vs) = (\<forall>v\<in>set vs. bson_ok v)"
| "bson_ok (VDict kvs) = (\<forall>v\<in>snd ` set kvs. bson_ok v)"
| "bson_ok _ = True"

definition doc_ok :: "fields \<Rightarrow> bool" where
  "doc_ok data = bson_ok (VDict data)"

text \<open>Modelled from the spec: \<^verbatim>\<open>create_document(collection_name, data)\<close> stores the record
  and returns the new identifier as a string. It fails, storing nothing, when there is no
  store or the store cannot be reached, and when the record cannot be encoded.\<close>

definition create_document :: "store \<Rightarrow> string \<Rightarrow> fields \<Rightarrow> (py_exn + string) \<times> store" where
  "create_document db name data =
     (case db of
        None \<Rightarrow> (Inl DatabaseError, db)
      | Some d \<Rightarrow>
          if \<not> reachable d then (Inl DatabaseError, db)
          else if \<not> doc_ok data then (Inl OverflowError, db)
          else (Inr (oid_str (new_oid (next_id d))), Some (insert_one d name data)))"

text \<open>Modelled from the spec: \<^verbatim>\<open>get_documents(collection_name)\<close> reads every record of the
  collection, each with its identifier under \<^verbatim>\<open>"_id"\<close>.\<close>

definition get_documents :: "store \<Rightarrow> string \<Rightarrow> py_exn + pydoc list" where
  "get_documents db name =
     (case db of
        None \<Rightarrow> Inl DatabaseError
      | Some d \<Rightarrow>
          if reachable d
          then Inr (map (\<lambda>(i, f). \<lparr>doc_id = Some i, doc_fields = f\<rparr>) (collection d name))
          else Inl DatabaseError)"

text \<open>Modelled from the spec: the driver's \<^verbatim>\<open>find_one({"_id": i})\<close> on a collection.\<close>

definition find_one :: "database \<Rightarrow> string \<Rightarrow> oid \<Rightarrow> py_exn + pydoc option" where
  "find_one d name i =
     (if reachable d
      then Inr (map_option (\<lambda>(j, f). \<lparr>doc_id = Some j, doc_fields = f\<rparr>)
                  (find (\<lambda>(j, f). j = i) (collection d name)))
      else Inl DatabaseError)"

text \<open>Modelled from the spec: the driver's \<^verbatim>\<open>list_collection_names()\<close>.\<close>

definition list_collection_names :: "database \<Rightarrow> py_exn + string list" where
  "list_collection_names d = (if reachable d then Inr (map fst (collections d)) else Inl DatabaseError)"

section \<open>Schemas\<close>

record WalletStyle =
  ws_title :: string
  ws_description :: "string option"
  ws_price :: pyfloat
  ws_images :: "string list"
  ws_finishes :: "string list"
  ws_in_stock :: bool

record Upload =
  up_filename :: string
  up_content_type :: string
  up_size :: int
  up_data_b64 :: string

record CartItem =
  product_id :: string
  quantity :: int
  finish :: "string option"
  engraving_text :: "string option"
  upload_id :: "string option"

record Customer =
  name :: string
  email :: string
  address_line1 :: string
  address_line2 :: "string option"
  city :: string
  state :: string
  postal_code :: string
  country :: string

record Order =
  order_items :: "CartItem list"
  order_customer :: Customer
  order_subtotal :: pyfloat
  order_shipping :: pyfloat
  order_total :: pyfloat
  order_status :: string
  order_notes :: "string option"

text \<open>The request models of \<^verbatim>\<open>main.py\<close>: \<^verbatim>\<open>CartItemIn\<close> has the fields of \<^verbatim>\<open>CartItem\<close>
  without the bound on the quantity, \<^verbatim>\<open>CustomerIn\<close> the fields of \<^verbatim>\<open>Customer\<close>.\<close>

type_synonym CartItemIn = CartItem
type_synonym CustomerIn = Customer

record CheckoutIn =
  items :: "CartItemIn list"
  customer :: CustomerIn

text \<open>An entry of \<^verbatim>\<open>items_full\<close>, the resolved line of a cart item.\<close>

record line =
  line_product_id :: string
  line_title :: pyval
  line_price_each :: pyfloat
  line_quantity :: int
  line_finish :: "string option"
  line_engraving_text :: "string option"
  line_upload_id :: "string option"

definition opt_str :: "string option \<Rightarrow> pyval" where
  "opt_str s = (case s of None \<Rightarrow> VNone | Some t \<Rightarrow> VStr t)"

text \<open>\<^verbatim>\<open>Field(..., ge=0)\<close> on a float.\<close>

definition ge0 :: "pyfloat \<Rightarrow> bool" where
  "ge0 x = float_ge_int x 0"

text \<open>\<^verbatim>\<open>WalletStyle(...)\<close>: the price is at least 0.\<close>

definition WalletStyle_init :: "WalletStyle \<Rightarrow> py_exn + WalletStyle" where
  "WalletStyle_init w = (if ge0 (ws_price w) then Inr w else Inl ValidationError)"

definition WalletStyle_dump :: "WalletStyle \<Rightarrow> fields" where
  "WalletStyle_dump w =
     [(''title'', VStr (ws_title w)),
      (''description'', opt_str (ws_description w)),
      (''price'', VFloat (ws_price w)),
      (''images'', VList (map VStr (ws_images w))),
      (''finishes'', VList (map VStr (ws_finishes w))),
      (''in_stock'', VBool (ws_in_stock w))]"

text \<open>\<^verbatim>\<open>Upload(...)\<close>: \<^verbatim>\<open>filename\<close> is a required string, and an upload may come without
  one.\<close>

definition Upload_init :: "string option \<Rightarrow> string \<Rightarrow> int \<Rightarrow> string \<Rightarrow> py_exn + Upload" where
  "Upload_init fname ctype sz b64 =
     (case fname of
        None \<Rightarrow> Inl ValidationError
      | Some f \<Rightarrow>
          Inr \<lparr>up_filename = f, up_content_type = ctype, up_size = sz, up_data_b64 = b64\<rparr>)"

definition Upload_dump :: "Upload \<Rightarrow> fields" where
  "Upload_dump u =
     [(''filename'', VStr (up_filename u)),
      (''content_type'', VStr (up_content_type u)),
      (''size'', VInt (up_size u)),
      (''data_b64'', VStr (up_data_b64 u))]"

text \<open>A dictionary of \<^verbatim>\<open>items_full\<close> validated as a \<^verbatim>\<open>CartItem\<close>: the quantity is at
  least 1; the keys \<^verbatim>\<open>title\<close> and \<^verbatim>\<open>price_each\<close> are no fields of the model and are
  dropped.\<close>

definition CartItem_of_line :: "line \<Rightarrow> py_exn + CartItem" where
  "CartItem_of_line l =
     (if 1 \<le> line_quantity l
      then Inr \<lparr>product_id = line_product_id l, quantity = line_quantity l,
                finish = line_finish l, engraving_text = line_engraving_text l,
                upload_id = line_upload_id l\<rparr>
      else Inl ValidationError)"

fun CartItems_of_lines :: "line list \<Rightarrow> py_exn + CartItem list" where
  "CartItems_of_lines [] = Inr []"
| "CartItems_of_lines (l # ls) =
     (case CartItem_of_line l of
        Inl e \<Rightarrow> Inl e
      | Inr c \<Rightarrow> (case CartItems_of_lines ls of Inl e \<Rightarrow> Inl e | Inr cs \<Rightarrow> Inr (c # cs)))"

text \<open>\<^verbatim>\<open>Order(items=..., customer=..., subtotal=..., shipping=..., total=..., status=...)\<close>:
  every item is a valid \<^verbatim>\<open>CartItem\<close>, and the three amounts are at least 0.\<close>

definition Order_init ::
  "line list \<Rightarrow> Customer \<Rightarrow> pyfloat \<Rightarrow> pyfloat \<Rightarrow> pyfloat \<Rightarrow> string \<Rightarrow> py_exn + Order" where
  "Order_init ls c sub ship tot st =
     (case CartItems_of_lines ls of
        Inl e \<Rightarrow> Inl e
      | Inr cs \<Rightarrow>
          if ge0 sub \<and> ge0 ship \<and> ge0 tot
          then Inr \<lparr>order_items = cs, order_customer = c, order_subtotal = sub,
                    order_shipping = ship, order_total = tot, order_status = st,
                    order_notes = None\<rparr>
          else Inl ValidationError)"

definition CartItem_dump :: "CartItem \<Rightarrow> fields" where
  "CartItem_dump c =
     [(''product_id'', VStr (product_id c)),
      (''quantity'', VInt (quantity c)),
      (''finish'', opt_str (finish c)),
      (''engraving_text'', opt_str (engraving_text c)),
      (''upload_id'', opt_str (upload_id c))]"

definition Customer_dump :: "Customer \<Rightarrow> fields" where
  "Customer_dump c =
     [(''name'', VStr (name c)),
      (''email'', VStr (email c)),
      (''address_line1'', VStr (address_line1 c)),
      (''address_line2'', opt_str (address_line2 c)),
      (''city'', VStr (city c)),
      (''state'', VStr (state c)),
      (''postal_code'', VStr (postal_code c)),
      (''country'', VStr (country c))]"

definition Order_dump :: "Order \<Rightarrow> fields" where
  "Order_dump ord =
     [(''items'', VList (map (\<lambda>c. VDict (CartItem_dump c)) (order_items ord))),
      (''customer'', VDict (Customer_dump (order_customer ord))),
      (''subtotal'', VFloat (order_subtotal ord)),
      (''shipping'', VFloat (order_shipping ord)),
      (''total'', VFloat (order_total ord)),
      (''status'', VStr (order_status ord)),
      (''notes'', opt_str (order_notes ord))]"


section \<open>Base64\<close>

text \<open>The alphabet of \<^verbatim>\<open>base64.b64encode\<close>: \<^verbatim>\<open>A-Z\<close>, \<^verbatim>\<open>a-z\<close>, \<^verbatim>\<open>0-9\<close>, \<^verbatim>\<open>+\<close>, \<^verbatim>\<open>/\<close>.\<close>

definition b64char :: "nat \<Rightarrow> char" where
  "b64char i =
     (if i < 26 then char_of (65 + i)
      else if i < 52 then char_of (71 + i)
      else if i < 62 then char_of (i - 4)
      else if i = 62 then CHR ''+'' else CHR ''/'')"

text \<open>Three bytes give four characters; a last group of one or two bytes is padded
  with \<^verbatim>\<open>=\<close>.\<close>

fun b64encode :: "byte list \<Rightarrow> string" where
  "b64encode [] = []"
| "b64encode [a] =
     (let x = unat a
      in [b64char (x div 4), b64char ((x mod 4) * 16), CHR ''='', CHR ''=''])"
| "b64encode [a, b] =
     (let x = unat a; y = unat b
      in [b64char (x div 4), b64char ((x mod 4) * 16 + y div 16),
          b64char ((y mod 16) * 4), CHR ''=''])"
| "b64encode (a # b # c # rest) =
     (let x = unat a; y = unat b; z = unat c
      in [b64char (x div 4), b64char ((x mod 4) * 16 + y div 16),
          b64char ((y mod 16) * 4 + z div 64), b64char (z mod 64)] @ b64encode rest)"

text \<open>The decoder the round trip is stated with: groups of four characters of the
  alphabet, the last group possibly padded.\<close>

definition b64index :: "char \<Rightarrow> nat option" where
  "b64index c =
     (let n = (of_char c :: nat)
      in if 65 \<le> n \<and> n \<le> 90 then Some (n - 65)
         else if 97 \<le> n \<and> n \<le> 122 then Some (n - 71)
         else if 48 \<le> n \<and> n \<le> 57 then Some (n + 4)
         else if n = 43 then Some 62
         else if n = 47 then Some 63
         else None)"

fun b64decode :: "string \<Rightarrow> byte list option" where
  "b64decode [] = Some []"
| "b64decode (c1 # c2 # c3 # c4 # rest) =
     (case (b64index c1, b64index c2) of
        (Some i, Some j) \<Rightarrow>
          if rest = [] \<and> c3 = CHR ''='' \<and> c4 = CHR ''=''
          then Some [of_nat (i * 4 + j div 16)]
          else (case b64index c3 of
             None \<Rightarrow> None
           | Some k \<Rightarrow>
               if rest = [] \<and> c4 = CHR ''=''
               then Some [of_nat (i * 4 + j div 16), of_nat ((j mod 16) * 16 + k div 4)]
               else (case (b64index c4, b64decode rest) of
                  (Some l, Some bs) \<Rightarrow>
                    Some (of_nat (i * 4 + j div 16) # of_nat ((j mod 16) * 16 + k div 4)
                          # of_nat ((k mod 4) * 64 + l) # bs)
                | _ \<Rightarrow> None))
      | _ \<Rightarrow> None)"
| "b64decode _ = None"

section \<open>The endpoints\<close>

subsection \<open>\<^verbatim>\<open>upload_art\<close>\<close>

record UploadFile =
  file_filename :: "string option"
  file_content_type :: "string option"
  file_content :: "byte list"

text \<open>\<^verbatim>\<open>file.content_type or "application/octet-stream"\<close>\<close>

definition content_type_or_default :: "string option \<Rightarrow> string" where
  "content_type_or_default c =
     (case c of None \<Rightarrow> ''application/octet-stream''
      | Some t \<Rightarrow> if t = [] then ''application/octet-stream'' else t)"

definition upload_art :: "store \<Rightarrow> UploadFile \<Rightarrow> (py_exn + fields) \<times> store" where
  "upload_art db file =
     (let content = file_content file;
          data_b64 = b64encode content
      in case Upload_init (file_filename file) (content_type_or_default (file_content_type file))
                (int (length content)) data_b64 of
           Inl e \<Rightarrow> (Inl (HTTPException 400 (StrOf e)), db)
         | Inr doc \<Rightarrow>
             (case create_document db ''upload'' (Upload_dump doc) of
                (Inl e, db') \<Rightarrow> (Inl (HTTPException 400 (StrOf e)), db')
              | (Inr new_id, db') \<Rightarrow> (Inr [(''upload_id'', VStr new_id)], db')))"

subsection \<open>\<^verbatim>\<open>checkout\<close>\<close>

text \<open>
  The loop over \<^verbatim>\<open>payload.items\<close>, with \<^verbatim>\<open>items_full\<close> and \<^verbatim>\<open>subtotal\<close> as they stand
  before the item. \<^verbatim>\<open>db["walletstyle"]\<close> is evaluated first, and is a \<^verbatim>\<open>TypeError\<close> when
  \<^verbatim>\<open>db\<close> is \<^verbatim>\<open>None\<close>; then \<^verbatim>\<open>ObjectId(item.product_id)\<close>; then the query.
\<close>

fun price_items ::
  "(string \<Rightarrow> pyfloat option) \<Rightarrow> store \<Rightarrow> CartItemIn list \<Rightarrow> line list \<Rightarrow> pyfloat
     \<Rightarrow> py_exn + (line list \<times> pyfloat)" where
  "price_items strtod db [] items_full subtotal = Inr (items_full, subtotal)"
| "price_items strtod db (item # rest) items_full subtotal =
     (case db of
        None \<Rightarrow> Inl TypeError
      | Some d \<Rightarrow>
     (case ObjectId (product_id item) of
        Inl e \<Rightarrow> Inl e
      | Inr i \<Rightarrow>
     (case find_one d ''walletstyle'' i of
        Inl e \<Rightarrow> Inl e
      | Inr None \<Rightarrow>
          Inl (HTTPException 404 (Text (''Product not found: '' @ product_id item)))
      | Inr (Some product) \<Rightarrow>
     (case py_float strtod (dict_get (doc_fields product) ''price'' (VInt 0)) of
        Inl e \<Rightarrow> Inl e
      | Inr price_each \<Rightarrow>
     (case float_of_int (quantity item) of
        Inl e \<Rightarrow> Inl e
      | Inr q \<Rightarrow>
          price_items strtod db rest
            (items_full @
              [\<lparr>line_product_id = product_id item,
                line_title = dict_get (doc_fields product) ''title'' VNone,
                line_price_each = price_each,
                line_quantity = quantity item,
                line_finish = finish item,
                line_engraving_text = engraving_text item,
                line_upload_id = upload_id item\<rparr>])
            (float_add subtotal (float_mul price_each q)))))))"

text \<open>\<^verbatim>\<open>5.0 if subtotal < 75 else 0.0\<close>\<close>

definition shipping_for :: "pyfloat \<Rightarrow> pyfloat" where
  "shipping_for subtotal = (if float_lt_int subtotal 75 then Fin 5 else Fin 0)"

text \<open>The body of the \<^verbatim>\<open>try\<close> block.\<close>

definition checkout_body ::
  "(string \<Rightarrow> pyfloat option) \<Rightarrow> store \<Rightarrow> CheckoutIn \<Rightarrow> (py_exn + fields) \<times> store" where
  "checkout_body strtod db payload =
     (case price_items strtod db (items payload) [] (Fin 0) of
        Inl e \<Rightarrow> (Inl e, db)
      | Inr (items_full, subtotal) \<Rightarrow>
     (let shipping = shipping_for subtotal
      in case round2 (float_add subtotal shipping) of
        Inl e \<Rightarrow> (Inl e, db)
      | Inr total_amount \<Rightarrow>
     (case round2 subtotal of
        Inl e \<Rightarrow> (Inl e, db)
      | Inr subtotal_rounded \<Rightarrow>
     (case Order_init items_full (customer payload) subtotal_rounded shipping total_amount ''pending'' of
        Inl e \<Rightarrow> (Inl e, db)
      | Inr order_doc \<Rightarrow>
     (case create_document db ''order'' (Order_dump order_doc) of
        (Inl e, db') \<Rightarrow> (Inl e, db')
      | (Inr order_id, db') \<Rightarrow>
          (Inr [(''order_id'', VStr order_id), (''status'', VStr ''pending''),
                (''amount'', VFloat total_amount)], db'))))))"

text \<open>\<^verbatim>\<open>except HTTPException: raise\<close>, \<^verbatim>\<open>except Exception as e: raise
  HTTPException(status_code=400, detail=str(e))\<close>\<close>

definition checkout ::
  "(string \<Rightarrow> pyfloat option) \<Rightarrow> store \<Rightarrow> CheckoutIn \<Rightarrow> (py_exn + fields) \<times> store" where
  "checkout strtod db payload =
     (case checkout_body strtod db payload of
        (Inl (HTTPException code d), db') \<Rightarrow> (Inl (HTTPException code d), db')
      | (Inl e, db') \<Rightarrow> (Inl (HTTPException 400 (StrOf e)), db')
      | (Inr r, db') \<Rightarrow> (Inr r, db'))"


text \<open>The vocabulary of the pricing properties. The amount of a resolved line is its unit price
  times its quantity, the quantity converted to a float as \<^verbatim>\<open>float * int\<close> does; the
  catalogue price of a product id is what the loop reads for it.\<close>

definition line_amount :: "line \<Rightarrow> pyfloat" where
  "line_amount l = float_mul (line_price_each l) (rn (of_int (line_quantity l)))"

definition catalog_price ::
  "(string \<Rightarrow> pyfloat option) \<Rightarrow> database \<Rightarrow> string \<Rightarrow> py_exn + pyfloat" where
  "catalog_price strtod d pid =
     (case ObjectId pid of
        Inl e \<Rightarrow> Inl e
      | Inr i \<Rightarrow>
          (case find_one d ''walletstyle'' i of
             Inl e \<Rightarrow> Inl e
           | Inr None \<Rightarrow> Inl (HTTPException 404 (Text (''Product not found: '' @ pid)))
           | Inr (Some product) \<Rightarrow>
               py_float strtod (dict_get (doc_fields product) ''price'' (VInt 0))))"

subsection \<open>\<^verbatim>\<open>list_styles\<close>\<close>

text \<open>The keyword arguments of the three \<^verbatim>\<open>WalletStyle(...)\<close> calls, \<^verbatim>\<open>in_stock\<close> at its
  default.\<close>

definition seed_args :: "WalletStyle list" where
  "seed_args =
     [\<lparr>ws_title = ''Carbon Fiber Slim Wallet'',
       ws_description = Some ''Durable carbon fiber plates with RFID blocking.'',
       ws_price = Fin 59,
       ws_images = [''https://images.unsplash.com/photo-1585386959984-a4155223162d?auto=format&fit=crop&w=1200&q=60''],
       ws_finishes = [''Matte Black'', ''Gunmetal'', ''Silver''],
       ws_in_stock = True\<rparr>,
      \<lparr>ws_title = ''Aluminum Slim Wallet'',
       ws_description = Some ''Lightweight anodized aluminum construction.'',
       ws_price = Fin 49,
       ws_images = [''https://images.unsplash.com/photo-1512496015851-a90fb38ba796?auto=format&fit=crop&w=1200&q=60''],
       ws_finishes = [''Matte Black'', ''Navy'', ''Forest''],
       ws_in_stock = True\<rparr>,
      \<lparr>ws_title = ''Titanium Slim Wallet'',
       ws_description = Some ''Premium titanium with sleek edges.'',
       ws_price = Fin 89,
       ws_images = [''https://images.unsplash.com/photo-1562184552-1e86cae0b2d9?auto=format&fit=crop&w=1200&q=60''],
       ws_finishes = [''Raw'', ''Stonewash'', ''Black Ti''],
       ws_in_stock = True\<rparr>]"

text \<open>The list \<^verbatim>\<open>seeds\<close>: each model is validated as it is built.\<close>

fun build_seeds :: "WalletStyle list \<Rightarrow> py_exn + WalletStyle list" where
  "build_seeds [] = Inr []"
| "build_seeds (w # ws) =
     (case WalletStyle_init w of
        Inl e \<Rightarrow> Inl e
      | Inr s \<Rightarrow> (case build_seeds ws of Inl e \<Rightarrow> Inl e | Inr ss \<Rightarrow> Inr (s # ss)))"

text \<open>\<^verbatim>\<open>for s in seeds: create_document("walletstyle", s)\<close>\<close>

fun create_seeds :: "store \<Rightarrow> WalletStyle list \<Rightarrow> (py_exn + unit) \<times> store" where
  "create_seeds db [] = (Inr (), db)"
| "create_seeds db (s # ss) =
     (case create_document db ''walletstyle'' (WalletStyle_dump s) of
        (Inl e, db') \<Rightarrow> (Inl e, db')
      | (Inr _, db') \<Rightarrow> create_seeds db' ss)"

text \<open>\<^verbatim>\<open>if "_id" in s: s["id"] = str(s.pop("_id"))\<close>\<close>

definition id_to_str :: "pydoc \<Rightarrow> pydoc" where
  "id_to_str s =
     (case doc_id s of
        None \<Rightarrow> s
      | Some i \<Rightarrow>
          \<lparr>doc_id = None, doc_fields = AList.update ''id'' (VStr (oid_str i)) (doc_fields s)\<rparr>)"

datatype styles_response = Styles "pydoc list" | JSONResponse nat detail

definition list_styles :: "store \<Rightarrow> styles_response \<times> store" where
  "list_styles db =
     (case get_documents db ''walletstyle'' of
        Inl e \<Rightarrow> (JSONResponse 500 (StrOf e), db)
      | Inr styles \<Rightarrow>
          if styles = []
          then (case build_seeds seed_args of
                  Inl e \<Rightarrow> (JSONResponse 500 (StrOf e), db)
                | Inr seeds \<Rightarrow>
                    (case create_seeds db seeds of
                       (Inl e, db') \<Rightarrow> (JSONResponse 500 (StrOf e), db')
                     | (Inr _, db') \<Rightarrow>
                         (case get_documents db' ''walletstyle'' of
                            Inl e \<Rightarrow> (JSONResponse 500 (StrOf e), db')
                          | Inr styles' \<Rightarrow> (Styles (map id_to_str styles'), db'))))
          else (Styles (map id_to_str styles), db))"

subsection \<open>\<^verbatim>\<open>test_database\<close>\<close>

text \<open>The two environment variables the endpoint looks at.\<close>

record environ =
  DATABASE_URL :: "string option"
  DATABASE_NAME :: "string option"

text \<open>The marks of the status strings, in UTF-8.\<close>

definition check_mark :: string where
  "check_mark = [CHR 0xE2, CHR 0x9C, CHR 0x85]"

definition cross_mark :: string where
  "cross_mark = [CHR 0xE2, CHR 0x9D, CHR 0x8C]"

text \<open>The value under \<^verbatim>\<open>"database"\<close>: a fixed string, or \<open>ErrorStatus e\<close> for the string
  the handler builds from the first 80 characters of \<^verbatim>\<open>str(e)\<close>.\<close>

datatype db_status = Status string | ErrorStatus py_exn

record diagnostics =
  diag_backend :: string
  diag_database :: db_status
  diag_database_url :: "string option"
  diag_database_name :: "string option"
  diag_connection_status :: string
  diag_collections :: "string list"

definition set_or_not :: "string option \<Rightarrow> string" where
  "set_or_not v =
     (case v of
        None \<Rightarrow> cross_mark @ '' Not Set''
      | Some t \<Rightarrow> if t = [] then cross_mark @ '' Not Set'' else check_mark @ '' Set'')"

text \<open>\<^verbatim>\<open>try: body except Exception as e: handler\<close>\<close>

definition try_except :: "'e + 'a \<Rightarrow> ('e \<Rightarrow> 'e + 'a) \<Rightarrow> 'e + 'a" where
  "try_except body handler = (case body of Inl e \<Rightarrow> handler e | Inr r \<Rightarrow> Inr r)"

definition initial_response :: diagnostics where
  "initial_response =
     \<lparr>diag_backend = check_mark @ '' Running'',
      diag_database = Status (cross_mark @ '' Not Available''),
      diag_database_url = None,
      diag_database_name = None,
      diag_connection_status = ''Not Connected'',
      diag_collections = []\<rparr>"

text \<open>The statements under \<^verbatim>\<open>if db is not None\<close>: the three assignments, then the inner
  \<^verbatim>\<open>try\<close> whose handler is \<^verbatim>\<open>pass\<close>.\<close>

definition probe :: "environ \<Rightarrow> database \<Rightarrow> diagnostics \<Rightarrow> py_exn + diagnostics" where
  "probe env d response =
     (let r = response\<lparr>diag_database := Status (check_mark @ '' Connected''),
                       diag_database_url := Some (set_or_not (DATABASE_URL env)),
                       diag_database_name := Some (set_or_not (DATABASE_NAME env))\<rparr>
      in try_except
           (case list_collection_names d of
              Inl e \<Rightarrow> Inl e
            | Inr names \<Rightarrow> Inr (r\<lparr>diag_collections := names\<rparr>))
           (\<lambda>e. Inr r))"

definition test_database :: "environ \<Rightarrow> store \<Rightarrow> py_exn + diagnostics" where
  "test_database env db =
     try_except
       (case db of None \<Rightarrow> Inr initial_response | Some d \<Rightarrow> probe env d initial_response)
       (\<lambda>e. Inr (initial_response\<lparr>diag_database := ErrorStatus e\<rparr>))"


section \<open>Example data\<close>

text \<open>A store with no collection yet, and the customer used in the examples.\<close>

definition empty_db :: database where
  "empty_db = \<lparr>reachable = True, next_id = 0, collections = []\<rparr>"

definition some_customer :: Customer where
  "some_customer =
     \<lparr>name = ''Ada'', email = ''ada@example.org'', address_line1 = ''1 Main St'',
      address_line2 = None, city = ''Leeds'', state = ''WY'', postal_code = ''LS1'',
      country = ''UK''\<rparr>"

text \<open>Four floats by their exact values: the ones nearest to 0.005, 0.01, 5.005 and 5.01.\<close>

definition dbl_0_005 :: rat where "dbl_0_005 = 5764607523034235 / 2 ^ 60"
definition dbl_0_01 :: rat where "dbl_0_01 = 5764607523034235 / 2 ^ 59"
definition dbl_5_005 :: rat where "dbl_5_005 = 5635129033747333 / 2 ^ 50"
definition dbl_5_01 :: rat where "dbl_5_01 = 2820379266640773 / 2 ^ 49"

text \<open>A catalogue of four styles: priced 59.0, priced 75.0, one whose document has no
  price, and one priced at the float nearest to 0.005.\<close>

definition oid_a :: oid where "oid_a = [0, 0, 0, 0, 0, 0, 0, 0, 0, 0, 0, 10]"
definition oid_b :: oid where "oid_b = [0, 0, 0, 0, 0, 0, 0, 0, 0, 0, 0, 11]"
definition oid_c :: oid where "oid_c = [0, 0, 0, 0, 0, 0, 0, 0, 0, 0, 0, 12]"
definition oid_d :: oid where "oid_d = [0, 0, 0, 0, 0, 0, 0, 0, 0, 0, 0, 13]"

definition shop_db :: database where
  "shop_db =
     \<lparr>reachable = True, next_id = 20,
      collections =
        [(''walletstyle'',
          [(oid_a, [(''title'', VStr ''Carbon Fiber Slim Wallet''), (''price'', VFloat (Fin 59))]),
           (oid_b, [(''title'', VStr ''Gift Set''), (''price'', VFloat (Fin 75))]),
           (oid_c, [(''title'', VStr ''Sample'')]),
           (oid_d, [(''title'', VStr ''Sticker''),
                    (''price'', VFloat (Fin dbl_0_005))])])]\<rparr>"

definition cart_item :: "string \<Rightarrow> int \<Rightarrow> CartItemIn" where
  "cart_item pid q =
     \<lparr>product_id = pid, quantity = q, finish = None, engraving_text = None, upload_id = None\<rparr>"

definition cart :: "CartItemIn list \<Rightarrow> CheckoutIn" where
  "cart its = \<lparr>items = its, customer = some_customer\<rparr>"

definition no_strings :: "string \<Rightarrow> pyfloat option" where
  "no_strings s = None"

section \<open>Rounding: the exponent is the right one\<close>

lemma pow2_pos: "0 < pow2 k"
  by (simp add: pow2_def)

lemma pow2_Suc: "pow2 (k + 1) = 2 * pow2 k"
proof -
  consider "0 \<le> k" | "k = -1" | "k < -1" by linarith
  then show ?thesis
  proof cases
    case 1 then show ?thesis by (simp add: pow2_def nat_add_distrib)
  next
    case 2 then show ?thesis by (simp add: pow2_def)
  next
    case 3
    then have "nat (- k) = Suc (nat (- k - 1))" by simp
    with 3 show ?thesis by (simp add: pow2_def)
  qed
qed

lemma pow2_mono: "j \<le> k \<Longrightarrow> pow2 j \<le> pow2 k"
proof (induction "nat (k - j)" arbitrary: k)
  case 0 then show ?case by simp
next
  case (Suc n)
  then have "n = nat ((k - 1) - j)" "j \<le> k - 1" by linarith+
  then have "pow2 j \<le> pow2 (k - 1)" using Suc.hyps(1) by blast
  moreover have "pow2 k = 2 * pow2 (k - 1)" using pow2_Suc [of "k - 1"] by simp
  ultimately show ?case using pow2_pos [of "k - 1"] by linarith
qed

lemma bitlen_rat_bounds:
  assumes "0 < n"
  shows "pow2 (bitlen n - 1) \<le> of_int n" and "of_int n + 1 \<le> pow2 (bitlen n)"
proof -
  from bitlen_bounds [OF assms]
  have a: "2 ^ nat (bitlen n - 1) \<le> n" and b: "n < 2 ^ nat (bitlen n)" by auto
  have bl: "1 \<le> bitlen n"
    using assms bitlen_eq_zero_iff [of n] bitlen_nonneg [of n] by linarith
  have "(of_int (2 ^ nat (bitlen n - 1)) :: rat) \<le> of_int n" using a of_int_le_iff by blast
  then show "pow2 (bitlen n - 1) \<le> of_int n" using bl by (simp add: pow2_def)
  have "n + 1 \<le> 2 ^ nat (bitlen n)" using b by linarith
  then have "(of_int (n + 1) :: rat) \<le> of_int (2 ^ nat (bitlen n))" using of_int_le_iff by blast
  then show "of_int n + 1 \<le> pow2 (bitlen n)" using bl by (simp add: pow2_def)
qed

lemma floor_log2_bounds:
  assumes "0 < x"
  shows "pow2 (floor_log2 x) \<le> x \<and> x < pow2 (floor_log2 x + 1)"
proof (cases "1 \<le> x")
  case True
  then have n: "0 < \<lfloor>x\<rfloor>" by linarith
  have fl: "floor_log2 x = bitlen \<lfloor>x\<rfloor> - 1" using True assms by (simp add: floor_log2_def)
  have a: "of_int \<lfloor>x\<rfloor> \<le> x" and b: "x < of_int \<lfloor>x\<rfloor> + 1" by linarith+
  have "pow2 (bitlen \<lfloor>x\<rfloor> - 1) \<le> x"
    using bitlen_rat_bounds(1) [OF n] a by (rule order_trans)
  moreover have "x < pow2 (bitlen \<lfloor>x\<rfloor>)"
    using b bitlen_rat_bounds(2) [OF n] by (rule less_le_trans)
  ultimately show ?thesis unfolding fl by simp
next
  case False
  let ?n = "\<lceil>1 / x\<rceil> - 1"
  from False assms have y: "1 < 1 / x" by simp
  then have n: "0 < ?n" by linarith
  have fl: "floor_log2 x = - bitlen ?n" using False assms by (simp add: floor_log2_def)
  have c1: "of_int ?n < 1 / x" by linarith
  have c2: "1 / x \<le> of_int ?n + 1" by (simp add: le_of_int_ceiling)
  from bitlen_rat_bounds [OF n]
  have b1: "pow2 (bitlen ?n - 1) < 1 / x" and b2: "1 / x \<le> pow2 (bitlen ?n)"
    using c1 c2 by linarith+
  have inv: "pow2 (- k) = 1 / pow2 k" for k
    by (cases "k = 0") (auto simp: pow2_def)
  have "pow2 (- bitlen ?n) \<le> x"
    using b2 assms pow2_pos [of "bitlen ?n"] unfolding inv by (simp add: field_simps)
  moreover have "x < pow2 (- bitlen ?n + 1)"
  proof -
    have "x * pow2 (bitlen ?n - 1) < 1" using b1 assms by (simp add: field_simps)
    then have "x < 1 / pow2 (bitlen ?n - 1)"
      using pow2_pos [of "bitlen ?n - 1"] by (simp add: pos_less_divide_eq)
    moreover have "- bitlen ?n + 1 = - (bitlen ?n - 1)" by simp
    ultimately show ?thesis using inv [of "bitlen ?n - 1"] by simp
  qed
  ultimately show ?thesis unfolding fl by simp
qed

lemma floor_log2_unique:
  assumes "0 < x" "pow2 k \<le> x" "x < pow2 (k + 1)"
  shows "floor_log2 x = k"
proof -
  let ?f = "floor_log2 x"
  from floor_log2_bounds [OF assms(1)]
  have f1: "pow2 ?f \<le> x" and f2: "x < pow2 (?f + 1)" by auto
  have "\<not> ?f < k"
  proof
    assume "?f < k"
    then have "pow2 (?f + 1) \<le> pow2 k" by (intro pow2_mono) simp
    with f2 assms(2) show False by linarith
  qed
  moreover have "\<not> k < ?f"
  proof
    assume "k < ?f"
    then have "pow2 (k + 1) \<le> pow2 ?f" by (intro pow2_mono) simp
    with f1 assms(3) show False by linarith
  qed
  ultimately show ?thesis by linarith
qed

lemma floor_rat_numeral_div:
  "\<lfloor>numeral a / numeral b :: rat\<rfloor> = numeral a div numeral b"
  using floor_divide_of_int_eq [of "numeral a" "numeral b", where ?'a = rat] by simp

lemma floor_rat_neg_numeral_div:
  "\<lfloor>- (numeral a / numeral b) :: rat\<rfloor> = - numeral a div numeral b"
  using floor_divide_of_int_eq [of "- numeral a" "numeral b", where ?'a = rat] by simp

lemmas rn_eval =
  pow2_def round_half_even_def Let_def floor_rat_numeral_div floor_rat_neg_numeral_div

text \<open>With the position \<open>k\<close> of the leading bit given, \<open>rn\<close> is arithmetic on numerals.\<close>

lemma rn_by_exponent:
  assumes "x \<noteq> 0" "pow2 k \<le> \<bar>x\<bar>" "\<bar>x\<bar> < pow2 (k + 1)"
  shows "rn x =
    (let e = max (- 1074) (k - 52); y = of_int (round_half_even (x / pow2 e)) * pow2 e
     in if 2 ^ 1024 \<le> y then PInf else if y \<le> - (2 ^ 1024) then NInf else Fin y)"
proof -
  have "floor_log2 \<bar>x\<bar> = k" using assms by (intro floor_log2_unique) auto
  moreover have "floor_log2 x = floor_log2 \<bar>x\<bar>" by (simp add: floor_log2_def)
  ultimately show ?thesis using assms(1) by (simp add: rn_def ulp_exp_def)
qed

lemma rn_0: "rn 0 = Fin 0"
  by (simp add: rn_def)

lemma rn_5: "rn 5 = Fin 5"
  by (subst rn_by_exponent [where k = 2]) (simp_all add: rn_eval)

lemma round2_0: "round2 (Fin 0) = Inr (Fin 0)"
  by (simp add: round2_def round_half_even_def rn_0)

lemma round2_5: "round2 (Fin 5) = Inr (Fin 5)"
  by (simp add: round2_def round_half_even_def rn_5)

section \<open>Records the store can encode\<close>

lemma doc_ok_Order_dump:
  "doc_ok (Order_dump ord) =
     (\<forall>c\<in>set (order_items ord). - (2 ^ 63) \<le> quantity c \<and> quantity c < 2 ^ 63)"
  by (auto simp: doc_ok_def Order_dump_def CartItem_dump_def Customer_dump_def opt_str_def
      split: option.splits)

lemma doc_ok_WalletStyle_dump: "doc_ok (WalletStyle_dump w)"
  by (auto simp: doc_ok_def WalletStyle_dump_def opt_str_def split: option.splits)

lemma doc_ok_Upload_dump:
  "doc_ok (Upload_dump u) = (- (2 ^ 63) \<le> up_size u \<and> up_size u < 2 ^ 63)"
  by (auto simp: doc_ok_def Upload_dump_def)

section \<open>Checkout\<close>

lemma checkout_body_empty:
  assumes "reachable d" "items payload = []"
  shows "checkout_body strtod (Some d) payload =
    (Inr [(''order_id'', VStr (oid_str (new_oid (next_id d)))),
          (''status'', VStr ''pending''), (''amount'', VFloat (Fin 5))],
     Some (insert_one d ''order''
       (Order_dump \<lparr>order_items = [], order_customer = customer payload,
          order_subtotal = Fin 0, order_shipping = Fin 5, order_total = Fin 5,
          order_status = ''pending'', order_notes = None\<rparr>)))"
  using assms
  by (simp add: checkout_body_def shipping_for_def rn_5 round2_0 round2_5 Order_init_def
      ge0_def create_document_def doc_ok_Order_dump Let_def)

text \<open>
  C9. A checkout with an empty list of items, on a store that is there and reachable,
  succeeds: the order written has subtotal 0.0, shipping 5.0 and total 5.0, no items,
  the customer of the request and the status pending, and the response carries the new
  order's identifier and the amount 5.0.
\<close>

theorem checkout_empty_cart:
  assumes "reachable d" "items payload = []"
  shows "checkout strtod (Some d) payload =
    (Inr [(''order_id'', VStr (oid_str (new_oid (next_id d)))),
          (''status'', VStr ''pending''), (''amount'', VFloat (Fin 5))],
     Some (insert_one d ''order''
       (Order_dump \<lparr>order_items = [], order_customer = customer payload,
          order_subtotal = Fin 0, order_shipping = Fin 5, order_total = Fin 5,
          order_status = ''pending'', order_notes = None\<rparr>)))"
  by (simp add: checkout_def checkout_body_empty [OF assms])



theorem checkout_empty_cart_witness:
  "reachable empty_db \<and> items (cart []) = [] \<and>
   fst (checkout no_strings (Some empty_db) (cart [])) =
     Inr [(''order_id'', VStr (oid_str (new_oid 0))), (''status'', VStr ''pending''),
          (''amount'', VFloat (Fin 5))]"
  using checkout_empty_cart [of empty_db "cart []" no_strings]
  by (simp add: empty_db_def cart_def)


section \<open>What a checkout computes\<close>

lemma float_of_int_Inr: "float_of_int n = Inr q \<Longrightarrow> q = rn (of_int n)"
  by (auto simp: float_of_int_def split: pyfloat.splits)

lemma price_items_acc:
  "price_items strtod (Some d) its acc s = Inr (ls, raw) \<Longrightarrow>
   \<exists>new. ls = acc @ new \<and>
     map line_product_id new = map product_id its \<and>
     map line_quantity new = map quantity its \<and>
     (\<forall>l\<in>set new. catalog_price strtod d (line_product_id l) = Inr (line_price_each l)) \<and>
     raw = foldl float_add s (map line_amount new)"
proof (induction its arbitrary: acc s)
  case Nil
  then show ?case by simp
next
  case (Cons item rest)
  from Cons.prems obtain i product pe q where
    oid: "ObjectId (product_id item) = Inr i" and
    found: "find_one d ''walletstyle'' i = Inr (Some product)" and
    pe: "py_float strtod (dict_get (doc_fields product) ''price'' (VInt 0)) = Inr pe" and
    q: "float_of_int (quantity item) = Inr q" and
    rest: "price_items strtod (Some d) rest
            (acc @ [\<lparr>line_product_id = product_id item,
                line_title = dict_get (doc_fields product) ''title'' VNone,
                line_price_each = pe, line_quantity = quantity item,
                line_finish = finish item, line_engraving_text = engraving_text item,
                line_upload_id = upload_id item\<rparr>])
            (float_add s (float_mul pe q)) = Inr (ls, raw)"
    by (auto split: sum.splits option.splits)
  let ?l = "\<lparr>line_product_id = product_id item,
                line_title = dict_get (doc_fields product) ''title'' VNone,
                line_price_each = pe, line_quantity = quantity item,
                line_finish = finish item, line_engraving_text = engraving_text item,
                line_upload_id = upload_id item\<rparr>"
  from Cons.IH [OF rest] obtain new where
    new: "ls = (acc @ [?l]) @ new"
      "map line_product_id new = map product_id rest"
      "map line_quantity new = map quantity rest"
      "\<forall>l\<in>set new. catalog_price strtod d (line_product_id l) = Inr (line_price_each l)"
      "raw = foldl float_add (float_add s (float_mul pe q)) (map line_amount new)"
    by blast
  have amt: "line_amount ?l = float_mul pe q"
    using float_of_int_Inr [OF q] by (simp add: line_amount_def)
  have cp: "catalog_price strtod d (line_product_id ?l) = Inr (line_price_each ?l)"
    using oid found pe by (simp add: catalog_price_def)
  show ?case
    apply (rule exI [of _ "?l # new"])
    using new amt cp by simp
qed

lemma checkout_success:
  assumes "checkout strtod db payload = (Inr r, db')"
  shows "\<exists>d ls raw sub tot cs.
    db = Some d \<and> reachable d \<and>
    price_items strtod db (items payload) [] (Fin 0) = Inr (ls, raw) \<and>
    round2 raw = Inr sub \<and>
    round2 (float_add raw (shipping_for raw)) = Inr tot \<and>
    CartItems_of_lines ls = Inr cs \<and> ge0 sub \<and> ge0 (shipping_for raw) \<and> ge0 tot \<and>
    db' = Some (insert_one d ''order''
       (Order_dump \<lparr>order_items = cs, order_customer = customer payload,
          order_subtotal = sub, order_shipping = shipping_for raw, order_total = tot,
          order_status = ''pending'', order_notes = None\<rparr>)) \<and>
    r = [(''order_id'', VStr (oid_str (new_oid (next_id d)))),
         (''status'', VStr ''pending''), (''amount'', VFloat tot)]"
  using assms
  by (auto simp: checkout_def checkout_body_def Let_def Order_init_def create_document_def
      split: sum.splits prod.splits py_exn.splits option.splits if_splits)

lemma checkout_failure_keeps_store:
  assumes "checkout strtod db payload = (Inl e, db')"
  shows "db' = db"
  using assms
  by (auto simp: checkout_def checkout_body_def Let_def Order_init_def create_document_def
      split: sum.splits prod.splits py_exn.splits option.splits if_splits)


section \<open>Evaluation on the example data\<close>

lemma rn_1: "rn 1 = Fin 1"
  by (subst rn_by_exponent [where k = 0]) (simp_all add: rn_eval)

lemma rn_59: "rn 59 = Fin 59"
  by (subst rn_by_exponent [where k = 5]) (simp_all add: rn_eval)

lemma rn_64: "rn 64 = Fin 64"
  by (subst rn_by_exponent [where k = 6]) (simp_all add: rn_eval)

lemma rn_75: "rn 75 = Fin 75"
  by (subst rn_by_exponent [where k = 6]) (simp_all add: rn_eval)

lemma round2_59: "round2 (Fin 59) = Inr (Fin 59)"
  by (simp add: round2_def round_half_even_def rn_59)

lemma round2_64: "round2 (Fin 64) = Inr (Fin 64)"
  by (simp add: round2_def round_half_even_def rn_64)

lemma round2_75: "round2 (Fin 75) = Inr (Fin 75)"
  by (simp add: round2_def round_half_even_def rn_75)

lemma float_of_int_0: "float_of_int 0 = Inr (Fin 0)"
  by (simp add: float_of_int_def rn_0)

lemma float_of_int_1: "float_of_int 1 = Inr (Fin 1)"
  by (simp add: float_of_int_def rn_1)

text \<open>The float nearest to 0.005, and what the two roundings make of it.\<close>

lemma rn_half_cent: "rn dbl_0_005 = Fin dbl_0_005"
  unfolding dbl_0_005_def
  by (subst rn_by_exponent [where k = "- 8"]) (simp_all add: rn_eval)

lemma round2_half_cent: "round2 (Fin dbl_0_005) = Inr (Fin dbl_0_01)"
proof -
  have "round_half_even (dbl_0_005 * 100) = 1"
    by (simp add: rn_eval dbl_0_005_def)
  moreover have "rn (1 / 100) = Fin dbl_0_01"
    unfolding dbl_0_01_def
    by (subst rn_by_exponent [where k = "- 7"]) (simp_all add: rn_eval)
  ultimately show ?thesis by (simp add: round2_def)
qed

lemma add_half_cent_5: "float_add (Fin dbl_0_005) (Fin 5) = Fin dbl_5_005"
proof -
  have "rn (dbl_0_005 + 5) = Fin dbl_5_005"
    unfolding dbl_0_005_def dbl_5_005_def
    by (subst rn_by_exponent [where k = 2]) (simp_all add: rn_eval)
  then show ?thesis by simp
qed

lemma round2_5_005: "round2 (Fin dbl_5_005) = Inr (Fin 5)"
proof -
  have "round_half_even (dbl_5_005 * 100) = 500"
    by (simp add: rn_eval dbl_5_005_def)
  then show ?thesis by (simp add: round2_def rn_5)
qed

lemma add_cent_5: "float_add (Fin dbl_0_01) (Fin 5) = Fin dbl_5_01"
proof -
  have "rn (dbl_0_01 + 5) = Fin dbl_5_01"
    unfolding dbl_0_01_def dbl_5_01_def
    by (subst rn_by_exponent [where k = 2]) (simp_all add: rn_eval)
  then show ?thesis by simp
qed

lemma round2_5_01: "round2 (Fin dbl_5_01) = Inr (Fin dbl_5_01)"
proof -
  have "round_half_even (dbl_5_01 * 100) = 501"
    by (simp add: rn_eval dbl_5_01_def)
  moreover have "rn (501 / 100) = Fin dbl_5_01"
    unfolding dbl_5_01_def
    by (subst rn_by_exponent [where k = 2]) (simp_all add: rn_eval)
  ultimately show ?thesis by (simp add: round2_def)
qed

text \<open>Identifiers of the example catalogue.\<close>

lemma ObjectId_a: "ObjectId ''00000000000000000000000a'' = Inr oid_a"
  by (simp add: ObjectId_def isspace_def digit_value_def oid_a_def)

lemma ObjectId_b: "ObjectId ''00000000000000000000000b'' = Inr oid_b"
  by (simp add: ObjectId_def isspace_def digit_value_def oid_b_def)

lemma ObjectId_c: "ObjectId ''00000000000000000000000c'' = Inr oid_c"
  by (simp add: ObjectId_def isspace_def digit_value_def oid_c_def)

lemma ObjectId_d: "ObjectId ''00000000000000000000000d'' = Inr oid_d"
  by (simp add: ObjectId_def isspace_def digit_value_def oid_d_def)

lemma ObjectId_e: "ObjectId ''00000000000000000000000e'' = Inr [0, 0, 0, 0, 0, 0, 0, 0, 0, 0, 0, 14]"
  by (simp add: ObjectId_def isspace_def digit_value_def)

lemma ObjectId_x: "ObjectId ''x'' = Inl (InvalidId ''x'')"
  by (simp add: ObjectId_def)

lemma find_a:
  "find_one shop_db ''walletstyle'' oid_a =
     Inr (Some \<lparr>doc_id = Some oid_a,
       doc_fields = [(''title'', VStr ''Carbon Fiber Slim Wallet''), (''price'', VFloat (Fin 59))]\<rparr>)"
  by (simp add: find_one_def shop_db_def collection_def)

lemma find_b:
  "find_one shop_db ''walletstyle'' oid_b =
     Inr (Some \<lparr>doc_id = Some oid_b,
       doc_fields = [(''title'', VStr ''Gift Set''), (''price'', VFloat (Fin 75))]\<rparr>)"
  by (simp add: find_one_def shop_db_def collection_def oid_a_def oid_b_def)

lemma find_c:
  "find_one shop_db ''walletstyle'' oid_c =
     Inr (Some \<lparr>doc_id = Some oid_c, doc_fields = [(''title'', VStr ''Sample'')]\<rparr>)"
  by (simp add: find_one_def shop_db_def collection_def oid_a_def oid_b_def oid_c_def)

lemma find_d:
  "find_one shop_db ''walletstyle'' oid_d =
     Inr (Some \<lparr>doc_id = Some oid_d,
       doc_fields = [(''title'', VStr ''Sticker''),
                     (''price'', VFloat (Fin dbl_0_005))]\<rparr>)"
  by (simp add: find_one_def shop_db_def collection_def oid_a_def oid_b_def oid_c_def oid_d_def)

lemma find_e: "find_one shop_db ''walletstyle'' [0, 0, 0, 0, 0, 0, 0, 0, 0, 0, 0, 14] = Inr None"
  by (simp add: find_one_def shop_db_def collection_def oid_a_def oid_b_def oid_c_def oid_d_def)

lemma reachable_shop: "reachable shop_db"
  by (simp add: shop_db_def)



lemma insert_one_collection:
  "collection (insert_one d n data) n = collection d n @ [(new_oid (next_id d), data)]"
  by (simp add: insert_one_def collection_def update_conv')

lemma price_items_step:
  assumes "ObjectId (product_id item) = Inr i"
    and "find_one d ''walletstyle'' i = Inr (Some p)"
    and "py_float strtod (dict_get (doc_fields p) ''price'' (VInt 0)) = Inr u"
    and "float_of_int (quantity item) = Inr q"
  shows "price_items strtod (Some d) (item # rest) acc s =
    price_items strtod (Some d) rest
      (acc @ [\<lparr>line_product_id = product_id item,
                line_title = dict_get (doc_fields p) ''title'' VNone,
                line_price_each = u, line_quantity = quantity item,
                line_finish = finish item, line_engraving_text = engraving_text item,
                line_upload_id = upload_id item\<rparr>])
      (float_add s (float_mul u q))"
  using assms by simp

lemma price_items_append:
  "price_items strtod db (pre @ post) acc s =
     (case price_items strtod db pre acc s of
        Inl e \<Rightarrow> Inl e
      | Inr (ls, s') \<Rightarrow> price_items strtod db post ls s')"
  by (induction pre arbitrary: acc s) (auto split: option.splits sum.splits)

lemma CartItems_of_lines_error:
  "CartItems_of_lines ls = Inl e \<Longrightarrow> e = ValidationError"
  by (induction ls arbitrary: e)
    (auto simp: CartItem_of_line_def split: sum.splits if_splits)

lemma CartItems_of_lines_low_quantity:
  "\<exists>l\<in>set ls. line_quantity l < 1 \<Longrightarrow> CartItems_of_lines ls = Inl ValidationError"
proof (induction ls)
  case Nil
  then show ?case by simp
next
  case (Cons l ls)
  show ?case
  proof (cases "line_quantity l < 1")
    case True
    then show ?thesis by (simp add: CartItem_of_line_def)
  next
    case False
    with Cons.prems have "\<exists>l\<in>set ls. line_quantity l < 1" by auto
    from Cons.IH [OF this] show ?thesis
      by (simp add: CartItem_of_line_def split: sum.splits)
  qed
qed

lemma round2_error: "round2 x = Inl e \<Longrightarrow> e = OverflowError"
  by (auto simp: round2_def split: pyfloat.splits)

lemma float_of_int_finite: "float_of_int n = Inr q \<Longrightarrow> \<exists>r. q = Fin r"
  by (cases "rn (of_int n)") (auto simp: float_of_int_def)

text \<open>
  C1. For every checkout that succeeds, with \<open>raw\<close> the float sum, in the order of the
  cart, of the amounts of the resolved lines (each the catalogue price of the item's
  product times the item's quantity): the order appended to the collection \<open>order\<close> has
  the subtotal \<open>round(raw, 2)\<close>, the shipping 5.0 if \<open>raw < 75\<close> and 0.0 otherwise, and the
  total \<open>round(raw + shipping, 2)\<close>, rounded from the unrounded sum; the response carries
  that total.
\<close>

theorem checkout_two_roundings:
  assumes "checkout strtod db payload = (Inr r, db')"
  shows "\<exists>d d' ls raw sub tot cs.
    db = Some d \<and> db' = Some d' \<and>
    price_items strtod db (items payload) [] (Fin 0) = Inr (ls, raw) \<and>
    map line_product_id ls = map product_id (items payload) \<and>
    map line_quantity ls = map quantity (items payload) \<and>
    (\<forall>l\<in>set ls. catalog_price strtod d (line_product_id l) = Inr (line_price_each l)) \<and>
    raw = foldl float_add (Fin 0) (map line_amount ls) \<and>
    round2 raw = Inr sub \<and>
    round2 (float_add raw (if float_lt_int raw 75 then Fin 5 else Fin 0)) = Inr tot \<and>
    collection d' ''order'' = collection d ''order'' @
      [(new_oid (next_id d),
        Order_dump \<lparr>order_items = cs, order_customer = customer payload,
          order_subtotal = sub,
          order_shipping = (if float_lt_int raw 75 then Fin 5 else Fin 0),
          order_total = tot, order_status = ''pending'', order_notes = None\<rparr>)] \<and>
    map_of r ''amount'' = Some (VFloat tot)"
proof -
  from checkout_success [OF assms] obtain d ls raw sub tot cs where
    s: "db = Some d" "reachable d"
      "price_items strtod db (items payload) [] (Fin 0) = Inr (ls, raw)"
      "round2 raw = Inr sub"
      "round2 (float_add raw (shipping_for raw)) = Inr tot"
      "db' = Some (insert_one d ''order''
         (Order_dump \<lparr>order_items = cs, order_customer = customer payload,
            order_subtotal = sub, order_shipping = shipping_for raw, order_total = tot,
            order_status = ''pending'', order_notes = None\<rparr>))"
      "r = [(''order_id'', VStr (oid_str (new_oid (next_id d)))),
         (''status'', VStr ''pending''), (''amount'', VFloat tot)]"
    by blast
  from price_items_acc [OF s(3) [unfolded s(1)]] obtain new where
    n: "ls = [] @ new" "map line_product_id new = map product_id (items payload)"
      "map line_quantity new = map quantity (items payload)"
      "\<forall>l\<in>set new. catalog_price strtod d (line_product_id l) = Inr (line_price_each l)"
      "raw = foldl float_add (Fin 0) (map line_amount new)"
    by blast
  show ?thesis
    apply (rule exI [of _ d])
    apply (rule exI [of _ "insert_one d ''order''
         (Order_dump \<lparr>order_items = cs, order_customer = customer payload,
            order_subtotal = sub, order_shipping = shipping_for raw, order_total = tot,
            order_status = ''pending'', order_notes = None\<rparr>)"])
    apply (rule exI [of _ ls])
    apply (rule exI [of _ raw])
    apply (rule exI [of _ sub])
    apply (rule exI [of _ tot])
    apply (rule exI [of _ cs])
    using s n by (simp add: insert_one_collection shipping_for_def)
qed

lemma checkout_59:
  "checkout no_strings (Some shop_db) (cart [cart_item ''00000000000000000000000a'' 1]) =
    (Inr [(''order_id'', VStr (oid_str (new_oid 20))),
          (''status'', VStr ''pending''), (''amount'', VFloat (Fin 64))],
     Some (insert_one shop_db ''order''
       (Order_dump \<lparr>order_items = [cart_item ''00000000000000000000000a'' 1],
          order_customer = some_customer,
          order_subtotal = Fin 59, order_shipping = Fin 5, order_total = Fin 64,
          order_status = ''pending'', order_notes = None\<rparr>)))"
  by (simp add: checkout_def checkout_body_def cart_def cart_item_def ObjectId_a find_a
      dict_get_def float_of_int_1 rn_59 rn_64 round2_59 round2_64 shipping_for_def Let_def
      Order_init_def CartItem_of_line_def ge0_def create_document_def doc_ok_Order_dump
      reachable_shop)
    (simp add: shop_db_def)

theorem checkout_two_roundings_witness:
  "\<exists>r db'. checkout no_strings (Some shop_db)
       (cart [cart_item ''00000000000000000000000a'' 1]) = (Inr r, db') \<and>
     (\<exists>d' ls raw sub tot.
        db' = Some d' \<and>
        price_items no_strings (Some shop_db)
          (items (cart [cart_item ''00000000000000000000000a'' 1])) [] (Fin 0) = Inr (ls, raw) \<and>
        raw = foldl float_add (Fin 0) (map line_amount ls) \<and>
        round2 raw = Inr sub \<and>
        round2 (float_add raw (if float_lt_int raw 75 then Fin 5 else Fin 0)) = Inr tot \<and>
        map_of r ''amount'' = Some (VFloat tot))"
  using checkout_59 checkout_two_roundings [OF checkout_59] by blast



lemma checkout_75:
  "checkout no_strings (Some shop_db) (cart [cart_item ''00000000000000000000000b'' 1]) =
    (Inr [(''order_id'', VStr (oid_str (new_oid 20))),
          (''status'', VStr ''pending''), (''amount'', VFloat (Fin 75))],
     Some (insert_one shop_db ''order''
       (Order_dump \<lparr>order_items = [cart_item ''00000000000000000000000b'' 1],
          order_customer = some_customer,
          order_subtotal = Fin 75, order_shipping = Fin 0, order_total = Fin 75,
          order_status = ''pending'', order_notes = None\<rparr>)))"
  by (simp add: checkout_def checkout_body_def cart_def cart_item_def ObjectId_b find_b
      dict_get_def float_of_int_1 rn_75 round2_75 shipping_for_def Let_def
      Order_init_def CartItem_of_line_def ge0_def create_document_def doc_ok_Order_dump
      reachable_shop)
    (simp add: shop_db_def)

lemma price_items_75:
  "price_items no_strings (Some shop_db)
     (items (cart [cart_item ''00000000000000000000000b'' 1])) [] (Fin 0) =
   Inr ([\<lparr>line_product_id = ''00000000000000000000000b'', line_title = VStr ''Gift Set'',
           line_price_each = Fin 75, line_quantity = 1, line_finish = None,
           line_engraving_text = None, line_upload_id = None\<rparr>], Fin 75)"
  by (simp add: cart_def cart_item_def ObjectId_b find_b dict_get_def float_of_int_1 rn_75)

text \<open>
  C4. The boundary of free shipping. For every checkout that succeeds, with \<open>raw\<close> the
  subtotal the loop has accumulated: the order written has shipping 0.0 when \<open>raw\<close> is
  exactly 75.0, shipping 5.0 when \<open>raw < 75\<close>, and shipping 0.0 whenever \<open>raw < 75\<close> does
  not hold. And a cart of one item of catalogue price 59.0 and quantity 1 is written with
  subtotal 59.0, shipping 5.0 and total 64.0.
\<close>

theorem shipping_boundary:
  "(\<forall>strtod d payload r db' ls raw.
      checkout strtod (Some d) payload = (Inr r, db') \<and>
      price_items strtod (Some d) (items payload) [] (Fin 0) = Inr (ls, raw) \<longrightarrow>
      (\<exists>ord. db' = Some (insert_one d ''order'' (Order_dump ord)) \<and>
         (raw = Fin 75 \<longrightarrow> order_shipping ord = Fin 0) \<and>
         (float_lt_int raw 75 \<longrightarrow> order_shipping ord = Fin 5) \<and>
         (\<not> float_lt_int raw 75 \<longrightarrow> order_shipping ord = Fin 0))) \<and>
   checkout no_strings (Some shop_db) (cart [cart_item ''00000000000000000000000a'' 1]) =
    (Inr [(''order_id'', VStr (oid_str (new_oid 20))),
          (''status'', VStr ''pending''), (''amount'', VFloat (Fin 64))],
     Some (insert_one shop_db ''order''
       (Order_dump \<lparr>order_items = [cart_item ''00000000000000000000000a'' 1],
          order_customer = some_customer,
          order_subtotal = Fin 59, order_shipping = Fin 5, order_total = Fin 64,
          order_status = ''pending'', order_notes = None\<rparr>)))"
proof (intro conjI allI impI)
  fix strtod d payload r db' ls raw
  assume a: "checkout strtod (Some d) payload = (Inr r, db') \<and>
      price_items strtod (Some d) (items payload) [] (Fin 0) = Inr (ls, raw)"
  from checkout_success [OF a [THEN conjunct1]] a [THEN conjunct2]
  obtain sub tot cs where
    "db' = Some (insert_one d ''order''
         (Order_dump \<lparr>order_items = cs, order_customer = customer payload,
            order_subtotal = sub, order_shipping = shipping_for raw, order_total = tot,
            order_status = ''pending'', order_notes = None\<rparr>))"
    by auto
  then show "\<exists>ord. db' = Some (insert_one d ''order'' (Order_dump ord)) \<and>
         (raw = Fin 75 \<longrightarrow> order_shipping ord = Fin 0) \<and>
         (float_lt_int raw 75 \<longrightarrow> order_shipping ord = Fin 5) \<and>
         (\<not> float_lt_int raw 75 \<longrightarrow> order_shipping ord = Fin 0)"
    by (intro exI [of _ "\<lparr>order_items = cs, order_customer = customer payload,
            order_subtotal = sub, order_shipping = shipping_for raw, order_total = tot,
            order_status = ''pending'', order_notes = None\<rparr>"])
      (auto simp: shipping_for_def)
next
  show "checkout no_strings (Some shop_db) (cart [cart_item ''00000000000000000000000a'' 1]) =
    (Inr [(''order_id'', VStr (oid_str (new_oid 20))),
          (''status'', VStr ''pending''), (''amount'', VFloat (Fin 64))],
     Some (insert_one shop_db ''order''
       (Order_dump \<lparr>order_items = [cart_item ''00000000000000000000000a'' 1],
          order_customer = some_customer,
          order_subtotal = Fin 59, order_shipping = Fin 5, order_total = Fin 64,
          order_status = ''pending'', order_notes = None\<rparr>)))"
    by (rule checkout_59)
qed

text \<open>A raw subtotal of exactly 75.0: the order is written with shipping 0.0.\<close>

theorem shipping_boundary_witness:
  "\<exists>ord. snd (checkout no_strings (Some shop_db)
       (cart [cart_item ''00000000000000000000000b'' 1])) =
         Some (insert_one shop_db ''order'' (Order_dump ord)) \<and>
     order_shipping ord = Fin 0"
proof -
  from shipping_boundary
  have "checkout no_strings (Some shop_db) (cart [cart_item ''00000000000000000000000b'' 1]) =
      (Inr [(''order_id'', VStr (oid_str (new_oid 20))),
          (''status'', VStr ''pending''), (''amount'', VFloat (Fin 75))],
       Some (insert_one shop_db ''order''
       (Order_dump \<lparr>order_items = [cart_item ''00000000000000000000000b'' 1],
          order_customer = some_customer,
          order_subtotal = Fin 75, order_shipping = Fin 0, order_total = Fin 75,
          order_status = ''pending'', order_notes = None\<rparr>))) \<and>
      price_items no_strings (Some shop_db)
        (items (cart [cart_item ''00000000000000000000000b'' 1])) [] (Fin 0) =
      Inr ([\<lparr>line_product_id = ''00000000000000000000000b'', line_title = VStr ''Gift Set'',
           line_price_each = Fin 75, line_quantity = 1, line_finish = None,
           line_engraving_text = None, line_upload_id = None\<rparr>], Fin 75) \<longrightarrow>
      (\<exists>ord. Some (insert_one shop_db ''order''
       (Order_dump \<lparr>order_items = [cart_item ''00000000000000000000000b'' 1],
          order_customer = some_customer,
          order_subtotal = Fin 75, order_shipping = Fin 0, order_total = Fin 75,
          order_status = ''pending'', order_notes = None\<rparr>)) =
            Some (insert_one shop_db ''order'' (Order_dump ord)) \<and>
         (Fin 75 = Fin 75 \<longrightarrow> order_shipping ord = Fin 0) \<and>
         (float_lt_int (Fin 75) 75 \<longrightarrow> order_shipping ord = Fin 5) \<and>
         (\<not> float_lt_int (Fin 75) 75 \<longrightarrow> order_shipping ord = Fin 0))"
    by blast
  with checkout_75 price_items_75 show ?thesis by auto
qed



lemma price_items_half_cent:
  "price_items no_strings (Some shop_db)
     (items (cart [cart_item ''00000000000000000000000d'' 1])) [] (Fin 0) =
   Inr ([\<lparr>line_product_id = ''00000000000000000000000d'', line_title = VStr ''Sticker'',
           line_price_each = Fin dbl_0_005, line_quantity = 1,
           line_finish = None, line_engraving_text = None, line_upload_id = None\<rparr>],
        Fin dbl_0_005)"
proof -
  have "float_mul (Fin dbl_0_005) (Fin 1) = Fin dbl_0_005"
    using rn_half_cent by simp
  moreover have
    "float_add (Fin 0) (Fin dbl_0_005) = Fin dbl_0_005"
    using rn_half_cent by simp
  ultimately show ?thesis
    by (simp add: cart_def cart_item_def ObjectId_d find_d dict_get_def float_of_int_1
        del: float_mul.simps float_add.simps)
qed

lemma checkout_half_cent:
  "checkout no_strings (Some shop_db) (cart [cart_item ''00000000000000000000000d'' 1]) =
    (Inr [(''order_id'', VStr (oid_str (new_oid 20))),
          (''status'', VStr ''pending''), (''amount'', VFloat (Fin 5))],
     Some (insert_one shop_db ''order''
       (Order_dump \<lparr>order_items = [cart_item ''00000000000000000000000d'' 1],
          order_customer = some_customer,
          order_subtotal = Fin dbl_0_01, order_shipping = Fin 5,
          order_total = Fin 5, order_status = ''pending'', order_notes = None\<rparr>)))"
proof -
  have ship: "shipping_for (Fin dbl_0_005) = Fin 5"
    by (simp add: shipping_for_def dbl_0_005_def)
  have body: "checkout_body no_strings (Some shop_db)
      (cart [cart_item ''00000000000000000000000d'' 1]) =
    (Inr [(''order_id'', VStr (oid_str (new_oid (next_id shop_db)))),
          (''status'', VStr ''pending''), (''amount'', VFloat (Fin 5))],
     Some (insert_one shop_db ''order''
       (Order_dump \<lparr>order_items = [cart_item ''00000000000000000000000d'' 1],
          order_customer = customer (cart [cart_item ''00000000000000000000000d'' 1]),
          order_subtotal = Fin dbl_0_01, order_shipping = Fin 5,
          order_total = Fin 5, order_status = ''pending'', order_notes = None\<rparr>)))"
    unfolding checkout_body_def price_items_half_cent
    by (simp add: ship add_half_cent_5 round2_5_005 round2_half_cent
        Order_init_def CartItem_of_line_def cart_item_def ge0_def create_document_def
        doc_ok_Order_dump
        reachable_shop Let_def dbl_0_01_def del: float_add.simps)
  show ?thesis
    unfolding checkout_def body by (simp add: cart_def shop_db_def)
qed

text \<open>
  C3, as stated, fails. The catalogue price is the float nearest to 0.005 and the
  quantity 1, so the raw subtotal is that float. The order is written with subtotal 0.01
  and shipping 5.0; its total is \<open>round(raw + 5.0, 2) = 5.0\<close>, while the rounded subtotal
  plus shipping rounds to 5.01.
\<close>

theorem total_from_rounded_subtotal_counterexample:
  "checkout no_strings (Some shop_db) (cart [cart_item ''00000000000000000000000d'' 1]) =
    (Inr [(''order_id'', VStr (oid_str (new_oid 20))),
          (''status'', VStr ''pending''), (''amount'', VFloat (Fin 5))],
     Some (insert_one shop_db ''order''
       (Order_dump \<lparr>order_items = [cart_item ''00000000000000000000000d'' 1],
          order_customer = some_customer,
          order_subtotal = Fin dbl_0_01, order_shipping = Fin 5,
          order_total = Fin 5, order_status = ''pending'', order_notes = None\<rparr>))) \<and>
   round2 (float_add (Fin dbl_0_01) (Fin 5)) =
     Inr (Fin dbl_5_01) \<and>
   Fin dbl_5_01 \<noteq> Fin 5"
  using checkout_half_cent
  by (simp add: add_cent_5 round2_5_01 del: float_add.simps) (simp add: dbl_5_01_def)

text \<open>
  C3, amended. For every checkout that succeeds, with \<open>raw\<close> the subtotal the loop has
  accumulated: the shipping written is 5.0 if and only if \<open>raw\<close> is below 75.0, and 0.0
  otherwise; the subtotal written is \<open>round(raw, 2)\<close>; the total written is
  \<open>round(raw + shipping, 2)\<close>, from the unrounded subtotal; and when rounding to two
  decimals leaves \<open>raw\<close> as it is, the total written is also the rounded subtotal plus
  the shipping, rounded to two decimals.
\<close>

theorem total_from_rounded_subtotal:
  assumes "checkout strtod (Some d) payload = (Inr r, db')"
    and "price_items strtod (Some d) (items payload) [] (Fin 0) = Inr (ls, raw)"
  shows "\<exists>ord. db' = Some (insert_one d ''order'' (Order_dump ord)) \<and>
    order_shipping ord = (if float_lt_int raw 75 then Fin 5 else Fin 0) \<and>
    round2 raw = Inr (order_subtotal ord) \<and>
    round2 (float_add raw (order_shipping ord)) = Inr (order_total ord) \<and>
    (round2 raw = Inr raw \<longrightarrow>
       round2 (float_add (order_subtotal ord) (order_shipping ord)) = Inr (order_total ord))"
proof -
  from checkout_success [OF assms(1)] assms(2)
  obtain sub tot cs where
    db': "db' = Some (insert_one d ''order''
         (Order_dump \<lparr>order_items = cs, order_customer = customer payload,
            order_subtotal = sub, order_shipping = shipping_for raw, order_total = tot,
            order_status = ''pending'', order_notes = None\<rparr>))"
    and sub: "round2 raw = Inr sub"
    and tot: "round2 (float_add raw (shipping_for raw)) = Inr tot"
    by auto
  show ?thesis
    by (intro exI [of _ "\<lparr>order_items = cs, order_customer = customer payload,
            order_subtotal = sub, order_shipping = shipping_for raw, order_total = tot,
            order_status = ''pending'', order_notes = None\<rparr>"])
      (use sub tot in \<open>auto simp: db' shipping_for_def\<close>)
qed

text \<open>A raw subtotal of exactly 75.0, which rounding leaves as it is: shipping 0.0,
  subtotal 75.0, and the total 75.0 is the rounding of either sum.\<close>

theorem total_from_rounded_subtotal_witness:
  "round2 (Fin 75) = Inr (Fin 75) \<and>
   (\<exists>ord. snd (checkout no_strings (Some shop_db)
       (cart [cart_item ''00000000000000000000000b'' 1])) =
         Some (insert_one shop_db ''order'' (Order_dump ord)) \<and>
      order_shipping ord = Fin 0 \<and>
      order_subtotal ord = Fin 75 \<and>
      round2 (float_add (Fin 75) (order_shipping ord)) = Inr (order_total ord) \<and>
      round2 (float_add (order_subtotal ord) (order_shipping ord)) = Inr (order_total ord))"
  using total_from_rounded_subtotal [OF checkout_75 price_items_75]
  by (auto simp: checkout_75 round2_75 simp del: float_add.simps)

lemma checkout_invalid_id:
  "checkout no_strings (Some shop_db) (cart [cart_item ''x'' 1]) =
     (Inl (HTTPException 400 (StrOf (InvalidId ''x''))), Some shop_db)"
  by (simp add: checkout_def checkout_body_def cart_def cart_item_def ObjectId_x)

lemma oid_str_a: "oid_str oid_a = ''00000000000000000000000a''"
  by (simp add: oid_str_def oid_a_def hexdigit_def)

lemma oid_str_b: "oid_str oid_b = ''00000000000000000000000b''"
  by (simp add: oid_str_def oid_b_def hexdigit_def)

lemma oid_str_c: "oid_str oid_c = ''00000000000000000000000c''"
  by (simp add: oid_str_def oid_c_def hexdigit_def)

lemma oid_str_d: "oid_str oid_d = ''00000000000000000000000d''"
  by (simp add: oid_str_def oid_d_def hexdigit_def)

text \<open>
  C2, as stated, fails. The product id \<^verbatim>\<open>x\<close> is the id of no document of the catalogue,
  and the checkout of a cart with it does not end in the not-found error: \<^verbatim>\<open>ObjectId\<close>
  raises \<^verbatim>\<open>InvalidId\<close> before any lookup, and the generic handler turns it into the
  status 400 with the text of that exception.
\<close>

theorem checkout_not_found_counterexample:
  "''x'' \<notin> set (map (\<lambda>(i, f). oid_str i) (collection shop_db ''walletstyle'')) \<and>
   checkout no_strings (Some shop_db) (cart [cart_item ''x'' 1]) =
     (Inl (HTTPException 400 (StrOf (InvalidId ''x''))), Some shop_db) \<and>
   fst (checkout no_strings (Some shop_db) (cart [cart_item ''x'' 1])) \<noteq>
     Inl (HTTPException 404 (Text (''Product not found: '' @ ''x'')))"
  by (simp add: checkout_invalid_id)
    (simp add: collection_def shop_db_def oid_str_a oid_str_b oid_str_c oid_str_d)

text \<open>
  C2, amended. If a cart item's product id is a well-formed identifier that the catalogue
  does not hold, and every item before it in the cart resolves, the checkout aborts with
  the status 404 and the message \<^verbatim>\<open>Product not found: \<close> followed by that product id,
  and the store is left as it was. And whenever a checkout fails, with whatever error,
  the store is left as it was: no order is written.
\<close>

theorem checkout_not_found:
  "(\<forall>strtod d payload pre item post ls s i.
      items payload = pre @ item # post \<and>
      price_items strtod (Some d) pre [] (Fin 0) = Inr (ls, s) \<and>
      ObjectId (product_id item) = Inr i \<and>
      find_one d ''walletstyle'' i = Inr None \<longrightarrow>
      checkout strtod (Some d) payload =
        (Inl (HTTPException 404 (Text (''Product not found: '' @ product_id item))), Some d)) \<and>
   (\<forall>strtod db payload e db'. checkout strtod db payload = (Inl e, db') \<longrightarrow> db' = db)"
proof (intro conjI allI impI)
  fix strtod d and payload :: CheckoutIn and pre item post ls s i
  assume a: "items payload = pre @ item # post \<and>
      price_items strtod (Some d) pre [] (Fin 0) = Inr (ls, s) \<and>
      ObjectId (product_id item) = Inr i \<and>
      find_one d ''walletstyle'' i = Inr None"
  then have "price_items strtod (Some d) (items payload) [] (Fin 0) =
      Inl (HTTPException 404 (Text (''Product not found: '' @ product_id item)))"
    by (simp add: price_items_append)
  then show "checkout strtod (Some d) payload =
      (Inl (HTTPException 404 (Text (''Product not found: '' @ product_id item))), Some d)"
    by (simp add: checkout_def checkout_body_def)
next
  fix strtod db and payload :: CheckoutIn and e db'
  assume "checkout strtod db payload = (Inl e, db')"
  then show "db' = db" by (rule checkout_failure_keeps_store)
qed

lemma price_items_59:
  "price_items no_strings (Some shop_db) [cart_item ''00000000000000000000000a'' 1] [] (Fin 0) =
   Inr ([\<lparr>line_product_id = ''00000000000000000000000a'',
           line_title = VStr ''Carbon Fiber Slim Wallet'',
           line_price_each = Fin 59, line_quantity = 1, line_finish = None,
           line_engraving_text = None, line_upload_id = None\<rparr>], Fin 59)"
  by (simp add: cart_item_def ObjectId_a find_a dict_get_def float_of_int_1 rn_59)

text \<open>The first item resolves, the second names a well-formed id the catalogue does not
  hold: status 404 with that id, and the store as before.\<close>

theorem checkout_not_found_witness:
  "checkout no_strings (Some shop_db)
     (cart [cart_item ''00000000000000000000000a'' 1, cart_item ''00000000000000000000000e'' 2]) =
   (Inl (HTTPException 404 (Text ''Product not found: 00000000000000000000000e'')), Some shop_db)"
proof -
  let ?p = "cart [cart_item ''00000000000000000000000a'' 1,
    cart_item ''00000000000000000000000e'' 2]"
  have 1: "items ?p = [cart_item ''00000000000000000000000a'' 1] @
      cart_item ''00000000000000000000000e'' 2 # []"
    by (simp add: cart_def)
  have 2: "ObjectId (product_id (cart_item ''00000000000000000000000e'' 2)) =
      Inr [0, 0, 0, 0, 0, 0, 0, 0, 0, 0, 0, 14]"
    by (simp add: cart_item_def ObjectId_e)
  from checkout_not_found [THEN conjunct1, rule_format,
      OF conjI [OF 1 conjI [OF price_items_59 conjI [OF 2 find_e]]]]
  have "checkout no_strings (Some shop_db) ?p =
    (Inl (HTTPException 404
      (Text (''Product not found: '' @ product_id (cart_item ''00000000000000000000000e'' 2)))),
     Some shop_db)" .
  then show ?thesis by (simp add: cart_item_def)
qed



lemma checkout_zero_quantity:
  "checkout no_strings (Some shop_db) (cart [cart_item ''00000000000000000000000a'' 0]) =
     (Inl (HTTPException 400 (StrOf ValidationError)), Some shop_db)"
proof -
  have "price_items no_strings (Some shop_db)
      (items (cart [cart_item ''00000000000000000000000a'' 0])) [] (Fin 0) =
    Inr ([\<lparr>line_product_id = ''00000000000000000000000a'',
           line_title = VStr ''Carbon Fiber Slim Wallet'',
           line_price_each = Fin 59, line_quantity = 0, line_finish = None,
           line_engraving_text = None, line_upload_id = None\<rparr>], Fin 0)"
    by (simp add: cart_def cart_item_def ObjectId_a find_a dict_get_def float_of_int_0 rn_0)
  then show ?thesis
    unfolding checkout_def checkout_body_def
    by (simp add: shipping_for_def rn_5 round2_5 round2_0 Order_init_def
        CartItem_of_line_def Let_def)
qed

text \<open>
  C7, as stated, fails. The product exists and is priced 59.0. With quantity 1 the
  checkout completes and an order is written; with quantity 0 the pricing loop resolves
  the line all the same, but the checkout does not complete as for a positive quantity:
  building the order validates every line as a \<^verbatim>\<open>CartItem\<close>, whose quantity is at least
  1, and the checkout ends in the status 400 with nothing written.
\<close>

theorem zero_quantity_counterexample:
  "price_items no_strings (Some shop_db) [cart_item ''00000000000000000000000a'' 0] [] (Fin 0) =
     Inr ([\<lparr>line_product_id = ''00000000000000000000000a'',
           line_title = VStr ''Carbon Fiber Slim Wallet'',
           line_price_each = Fin 59, line_quantity = 0, line_finish = None,
           line_engraving_text = None, line_upload_id = None\<rparr>], Fin 0) \<and>
   checkout no_strings (Some shop_db) (cart [cart_item ''00000000000000000000000a'' 0]) =
     (Inl (HTTPException 400 (StrOf ValidationError)), Some shop_db) \<and>
   fst (checkout no_strings (Some shop_db) (cart [cart_item ''00000000000000000000000a'' 1])) =
     Inr [(''order_id'', VStr (oid_str (new_oid 20))),
          (''status'', VStr ''pending''), (''amount'', VFloat (Fin 64))]"
  by (simp add: checkout_zero_quantity checkout_59)
    (simp add: cart_item_def ObjectId_a find_a dict_get_def float_of_int_0 rn_0)

text \<open>
  C7, amended. For a cart item whose product exists with a price that \<^verbatim>\<open>float\<close> accepts,
  the pricing loop rejects no quantity that converts to a float: zero and negative
  quantities included, it multiplies the quantity into the line price and adds the line
  to the subtotal, with no bound check. The bound is the schema's alone: when the loop
  has resolved every item and some item's quantity is below 1, the checkout fails with
  the status 400 and the text of the exception raised after the loop, and no order is
  written.
\<close>

theorem quantity_not_checked_by_pricing:
  "(\<forall>strtod d item rest acc s i p u q.
      ObjectId (product_id item) = Inr i \<and>
      find_one d ''walletstyle'' i = Inr (Some p) \<and>
      py_float strtod (dict_get (doc_fields p) ''price'' (VInt 0)) = Inr u \<and>
      float_of_int (quantity item) = Inr q \<longrightarrow>
      price_items strtod (Some d) (item # rest) acc s =
        price_items strtod (Some d) rest
          (acc @ [\<lparr>line_product_id = product_id item,
                line_title = dict_get (doc_fields p) ''title'' VNone,
                line_price_each = u, line_quantity = quantity item,
                line_finish = finish item, line_engraving_text = engraving_text item,
                line_upload_id = upload_id item\<rparr>])
          (float_add s (float_mul u q))) \<and>
   (\<forall>strtod d payload ls raw.
      price_items strtod (Some d) (items payload) [] (Fin 0) = Inr (ls, raw) \<and>
      (\<exists>item\<in>set (items payload). quantity item < 1) \<longrightarrow>
      (\<exists>e. (e = ValidationError \<or> e = OverflowError) \<and>
         checkout strtod (Some d) payload = (Inl (HTTPException 400 (StrOf e)), Some d)))"
proof (intro conjI allI impI)
  fix strtod d and item :: CartItemIn and rest acc s i p u q
  assume "ObjectId (product_id item) = Inr i \<and>
      find_one d ''walletstyle'' i = Inr (Some p) \<and>
      py_float strtod (dict_get (doc_fields p) ''price'' (VInt 0)) = Inr u \<and>
      float_of_int (quantity item) = Inr q"
  then show "price_items strtod (Some d) (item # rest) acc s =
        price_items strtod (Some d) rest
          (acc @ [\<lparr>line_product_id = product_id item,
                line_title = dict_get (doc_fields p) ''title'' VNone,
                line_price_each = u, line_quantity = quantity item,
                line_finish = finish item, line_engraving_text = engraving_text item,
                line_upload_id = upload_id item\<rparr>])
          (float_add s (float_mul u q))"
    by (simp add: price_items_step)
next
  fix strtod d and payload :: CheckoutIn and ls raw
  assume a: "price_items strtod (Some d) (items payload) [] (Fin 0) = Inr (ls, raw) \<and>
      (\<exists>item\<in>set (items payload). quantity item < 1)"
  from price_items_acc [OF a [THEN conjunct1]]
  have "map line_quantity ls = map quantity (items payload)" by auto
  then have "line_quantity ` set ls = quantity ` set (items payload)"
    by (metis set_map)
  with a have "\<exists>l\<in>set ls. line_quantity l < 1" by force
  then have bad: "CartItems_of_lines ls = Inl ValidationError"
    by (rule CartItems_of_lines_low_quantity)
  show "\<exists>e. (e = ValidationError \<or> e = OverflowError) \<and>
      checkout strtod (Some d) payload = (Inl (HTTPException 400 (StrOf e)), Some d)"
  proof (cases "round2 (float_add raw (shipping_for raw))")
    case (Inl e)
    then have "e = OverflowError" by (rule round2_error)
    with Inl a show ?thesis by (simp add: checkout_def checkout_body_def Let_def)
  next
    case tot: (Inr tot)
    show ?thesis
    proof (cases "round2 raw")
      case (Inl e)
      then have "e = OverflowError" by (rule round2_error)
      with Inl tot a show ?thesis by (simp add: checkout_def checkout_body_def Let_def)
    next
      case (Inr sub)
      with tot a bad show ?thesis
        by (simp add: checkout_def checkout_body_def Let_def Order_init_def)
    qed
  qed
qed

text \<open>Quantity 0 for the product priced 59.0: the loop resolves the line, the checkout
  fails with 400 and the store is as before.\<close>

theorem quantity_not_checked_by_pricing_witness:
  "\<exists>e. checkout no_strings (Some shop_db) (cart [cart_item ''00000000000000000000000a'' 0]) =
     (Inl (HTTPException 400 (StrOf e)), Some shop_db)"
proof -
  have 1: "price_items no_strings (Some shop_db)
      (items (cart [cart_item ''00000000000000000000000a'' 0])) [] (Fin 0) =
    Inr ([\<lparr>line_product_id = ''00000000000000000000000a'',
           line_title = VStr ''Carbon Fiber Slim Wallet'',
           line_price_each = Fin 59, line_quantity = 0, line_finish = None,
           line_engraving_text = None, line_upload_id = None\<rparr>], Fin 0)"
    by (simp add: cart_def cart_item_def ObjectId_a find_a dict_get_def float_of_int_0 rn_0)
  have 2: "\<exists>item\<in>set (items (cart [cart_item ''00000000000000000000000a'' 0])).
      quantity item < 1"
    by (simp add: cart_def cart_item_def)
  from quantity_not_checked_by_pricing [THEN conjunct2, rule_format, OF conjI [OF 1 2]]
  show ?thesis by blast
qed



lemma float_mul_zero_finite: "float_of_int n = Inr q \<Longrightarrow> float_mul (Fin 0) q = Fin 0"
  using float_of_int_finite [of n q] by (auto simp: rn_0)

text \<open>
  C10. When the catalogue document found for a cart item has no \<^verbatim>\<open>price\<close> field (and the
  item's quantity converts to a float): the resolved line has the unit price 0.0, its
  amount is 0.0, and 0.0 is what the loop adds to the subtotal, going on to the next
  item without an error. A cart of that one item, with a quantity of at least 1 that the
  store can encode (below \<open>2\<^sup>6\<^sup>3\<close>), on a reachable store, checks out successfully: the
  order is written with subtotal 0.0, shipping 5.0 and total 5.0.
\<close>

theorem missing_price_defaults_to_zero:
  "(\<forall>strtod d item rest acc s i p q.
      ObjectId (product_id item) = Inr i \<and>
      find_one d ''walletstyle'' i = Inr (Some p) \<and>
      map_of (doc_fields p) ''price'' = None \<and>
      float_of_int (quantity item) = Inr q \<longrightarrow>
      (\<exists>l. line_price_each l = Fin 0 \<and> line_amount l = Fin 0 \<and>
         line_product_id l = product_id item \<and> line_quantity l = quantity item \<and>
         price_items strtod (Some d) (item # rest) acc s =
           price_items strtod (Some d) rest (acc @ [l]) (float_add s (Fin 0)))) \<and>
   (\<forall>strtod d item c i p q.
      ObjectId (product_id item) = Inr i \<and>
      find_one d ''walletstyle'' i = Inr (Some p) \<and>
      map_of (doc_fields p) ''price'' = None \<and>
      float_of_int (quantity item) = Inr q \<and>
      1 \<le> quantity item \<and> quantity item < 2 ^ 63 \<longrightarrow>
      checkout strtod (Some d) \<lparr>items = [item], customer = c\<rparr> =
        (Inr [(''order_id'', VStr (oid_str (new_oid (next_id d)))),
              (''status'', VStr ''pending''), (''amount'', VFloat (Fin 5))],
         Some (insert_one d ''order''
           (Order_dump \<lparr>order_items = [item], order_customer = c,
              order_subtotal = Fin 0, order_shipping = Fin 5, order_total = Fin 5,
              order_status = ''pending'', order_notes = None\<rparr>))))"
proof (intro conjI allI impI)
  fix strtod d and item :: CartItemIn and rest acc s i p q
  assume a: "ObjectId (product_id item) = Inr i \<and>
      find_one d ''walletstyle'' i = Inr (Some p) \<and>
      map_of (doc_fields p) ''price'' = None \<and>
      float_of_int (quantity item) = Inr q"
  let ?l = "\<lparr>line_product_id = product_id item,
                line_title = dict_get (doc_fields p) ''title'' VNone,
                line_price_each = Fin 0, line_quantity = quantity item,
                line_finish = finish item, line_engraving_text = engraving_text item,
                line_upload_id = upload_id item\<rparr>"
  from a have pf: "py_float strtod (dict_get (doc_fields p) ''price'' (VInt 0)) = Inr (Fin 0)"
    by (simp add: dict_get_def float_of_int_0)
  from a have z: "float_mul (Fin 0) q = Fin 0"
    using float_mul_zero_finite [of "quantity item" q] by blast
  from a have "q = rn (of_int (quantity item))" by (simp add: float_of_int_Inr)
  with z have amt: "line_amount ?l = Fin 0" by (simp add: line_amount_def)
  have "price_items strtod (Some d) (item # rest) acc s =
      price_items strtod (Some d) rest (acc @ [?l]) (float_add s (float_mul (Fin 0) q))"
    using a pf by (intro price_items_step) auto
  with z amt show "\<exists>l. line_price_each l = Fin 0 \<and> line_amount l = Fin 0 \<and>
         line_product_id l = product_id item \<and> line_quantity l = quantity item \<and>
         price_items strtod (Some d) (item # rest) acc s =
           price_items strtod (Some d) rest (acc @ [l]) (float_add s (Fin 0))"
    by (intro exI [of _ ?l]) simp
next
  fix strtod d and item :: CartItemIn and c i p q
  assume a: "ObjectId (product_id item) = Inr i \<and>
      find_one d ''walletstyle'' i = Inr (Some p) \<and>
      map_of (doc_fields p) ''price'' = None \<and>
      float_of_int (quantity item) = Inr q \<and>
      1 \<le> quantity item \<and> quantity item < 2 ^ 63"
  let ?l = "\<lparr>line_product_id = product_id item,
                line_title = dict_get (doc_fields p) ''title'' VNone,
                line_price_each = Fin 0, line_quantity = quantity item,
                line_finish = finish item, line_engraving_text = engraving_text item,
                line_upload_id = upload_id item\<rparr>"
  from a have pf: "py_float strtod (dict_get (doc_fields p) ''price'' (VInt 0)) = Inr (Fin 0)"
    by (simp add: dict_get_def float_of_int_0)
  from a have z: "float_mul (Fin 0) q = Fin 0"
    using float_mul_zero_finite [of "quantity item" q] by blast
  from a have r: "reachable d" by (auto simp: find_one_def split: if_splits)
  have "price_items strtod (Some d) [item] [] (Fin 0) =
      price_items strtod (Some d) [] ([] @ [?l]) (float_add (Fin 0) (float_mul (Fin 0) q))"
    using a pf by (intro price_items_step) auto
  then have loop: "price_items strtod (Some d) [item] [] (Fin 0) = Inr ([?l], Fin 0)"
    by (simp add: z rn_0)
  have ci: "CartItems_of_lines [?l] = Inr [item]"
    using a by (simp add: CartItem_of_line_def)
  show "checkout strtod (Some d) \<lparr>items = [item], customer = c\<rparr> =
        (Inr [(''order_id'', VStr (oid_str (new_oid (next_id d)))),
              (''status'', VStr ''pending''), (''amount'', VFloat (Fin 5))],
         Some (insert_one d ''order''
           (Order_dump \<lparr>order_items = [item], order_customer = c,
              order_subtotal = Fin 0, order_shipping = Fin 5, order_total = Fin 5,
              order_status = ''pending'', order_notes = None\<rparr>)))"
    unfolding checkout_def checkout_body_def
    using loop ci r a
    by (simp add: shipping_for_def rn_5 round2_0 round2_5 Order_init_def ge0_def
        create_document_def doc_ok_Order_dump Let_def
        del: price_items.simps CartItems_of_lines.simps)
qed

text \<open>The product without a price, quantity 1: the order is written with subtotal 0.0,
  shipping 5.0 and total 5.0.\<close>

theorem missing_price_defaults_to_zero_witness:
  "checkout no_strings (Some shop_db) (cart [cart_item ''00000000000000000000000c'' 1]) =
     (Inr [(''order_id'', VStr (oid_str (new_oid 20))),
           (''status'', VStr ''pending''), (''amount'', VFloat (Fin 5))],
      Some (insert_one shop_db ''order''
        (Order_dump \<lparr>order_items = [cart_item ''00000000000000000000000c'' 1],
           order_customer = some_customer,
           order_subtotal = Fin 0, order_shipping = Fin 5, order_total = Fin 5,
           order_status = ''pending'', order_notes = None\<rparr>)))"
proof -
  have 1: "ObjectId (product_id (cart_item ''00000000000000000000000c'' 1)) = Inr oid_c"
    by (simp add: cart_item_def ObjectId_c)
  have 3: "map_of (doc_fields \<lparr>doc_id = Some oid_c, doc_fields = [(''title'', VStr ''Sample'')]\<rparr>)
      ''price'' = None"
    by simp
  have 4: "float_of_int (quantity (cart_item ''00000000000000000000000c'' 1)) = Inr (Fin 1)"
    by (simp add: cart_item_def float_of_int_1)
  have 5: "1 \<le> quantity (cart_item ''00000000000000000000000c'' 1) \<and>
      quantity (cart_item ''00000000000000000000000c'' 1) < 2 ^ 63"
    by (simp add: cart_item_def)
  from missing_price_defaults_to_zero [THEN conjunct2, rule_format,
      OF conjI [OF 1 conjI [OF find_c conjI [OF 3 conjI [OF 4 5]]]],
      of no_strings some_customer]
  show ?thesis by (simp add: cart_def shop_db_def)
qed



lemma float_of_int_2_63: "float_of_int (2 ^ 63) = Inr (Fin (2 ^ 63))"
proof -
  have "rn (2 ^ 63) = Fin (2 ^ 63)"
    by (subst rn_by_exponent [where k = 63]) (simp_all add: rn_eval)
  then show ?thesis by (simp add: float_of_int_def)
qed

text \<open>The bound on the quantity is needed: at \<open>2\<^sup>6\<^sup>3\<close> the loop and the schema accept the
  item of the product without a price, and the write of the order fails.\<close>

lemma checkout_huge_quantity:
  "checkout no_strings (Some shop_db) (cart [cart_item ''00000000000000000000000c'' (2 ^ 63)]) =
     (Inl (HTTPException 400 (StrOf OverflowError)), Some shop_db)"
proof -
  have "price_items no_strings (Some shop_db)
      (items (cart [cart_item ''00000000000000000000000c'' (2 ^ 63)])) [] (Fin 0) =
    Inr ([\<lparr>line_product_id = ''00000000000000000000000c'', line_title = VStr ''Sample'',
           line_price_each = Fin 0, line_quantity = 2 ^ 63, line_finish = None,
           line_engraving_text = None, line_upload_id = None\<rparr>], Fin 0)"
    using float_of_int_2_63
    by (simp add: cart_def cart_item_def ObjectId_c find_c dict_get_def float_of_int_0 rn_0)
  then show ?thesis
    unfolding checkout_def checkout_body_def
    by (simp add: shipping_for_def rn_5 round2_5 round2_0 Order_init_def
        CartItem_of_line_def ge0_def create_document_def doc_ok_Order_dump reachable_shop
        Let_def)
qed

section \<open>Diagnostics\<close>

text \<open>
  C8. The diagnostics endpoint never raises: for every environment and every state of
  the store it returns a response. With no store handle the response is the initial one
  (database not available, no collections); with a handle whose server cannot be reached
  the failure of the listing is swallowed and the list of collections stays empty; with a
  reachable store the collections are listed. The backend is reported as running in
  every case.
\<close>

theorem test_database_never_raises:
  "\<exists>r. test_database env db = Inr r \<and>
     diag_backend r = check_mark @ '' Running'' \<and>
     diag_connection_status r = ''Not Connected'' \<and>
     (db = None \<longrightarrow> r = initial_response) \<and>
     (\<forall>d. db = Some d \<longrightarrow>
        diag_database r = Status (check_mark @ '' Connected'') \<and>
        diag_database_url r = Some (set_or_not (DATABASE_URL env)) \<and>
        diag_database_name r = Some (set_or_not (DATABASE_NAME env)) \<and>
        diag_collections r = (if reachable d then map fst (collections d) else []))"
  by (cases db)
    (auto simp: test_database_def try_except_def probe_def list_collection_names_def
      initial_response_def Let_def)

text \<open>A store whose server cannot be reached, and no environment variable set.\<close>

theorem test_database_never_raises_witness:
  "test_database \<lparr>DATABASE_URL = None, DATABASE_NAME = None\<rparr>
     (Some (empty_db\<lparr>reachable := False\<rparr>)) =
   Inr \<lparr>diag_backend = check_mark @ '' Running'',
        diag_database = Status (check_mark @ '' Connected''),
        diag_database_url = Some (cross_mark @ '' Not Set''),
        diag_database_name = Some (cross_mark @ '' Not Set''),
        diag_connection_status = ''Not Connected'',
        diag_collections = []\<rparr>"
proof -
  from test_database_never_raises
    [of "\<lparr>DATABASE_URL = None, DATABASE_NAME = None\<rparr>" "Some (empty_db\<lparr>reachable := False\<rparr>)"]
  obtain r where r: "test_database \<lparr>DATABASE_URL = None, DATABASE_NAME = None\<rparr>
     (Some (empty_db\<lparr>reachable := False\<rparr>)) = Inr r"
    and "diag_backend r = check_mark @ '' Running''"
    and "diag_connection_status r = ''Not Connected''"
    and "diag_database r = Status (check_mark @ '' Connected'')"
    and "diag_database_url r = Some (set_or_not None)"
    and "diag_database_name r = Some (set_or_not None)"
    and "diag_collections r = []"
    by auto
  then have "r = \<lparr>diag_backend = check_mark @ '' Running'',
        diag_database = Status (check_mark @ '' Connected''),
        diag_database_url = Some (cross_mark @ '' Not Set''),
        diag_database_name = Some (cross_mark @ '' Not Set''),
        diag_connection_status = ''Not Connected'',
        diag_collections = []\<rparr>"
    by (cases r) (simp add: set_or_not_def)
  with r show ?thesis by simp
qed



section \<open>Uploads\<close>

lemma b64index_b64char: "i < 64 \<Longrightarrow> b64index (b64char i) = Some i"
  by (auto simp: b64index_def b64char_def Let_def)

lemma b64char_not_pad: "b64char i \<noteq> CHR ''=''"
proof -
  have "(of_char (b64char i) :: nat) \<noteq> 61"
    by (auto simp: b64char_def)
  then show ?thesis by auto
qed

lemma pack_div: "b < n \<Longrightarrow> (a * n + b) div n = (a::nat)"
  by simp

lemma pack_mod: "b < n \<Longrightarrow> (a * n + b) mod n = (b::nat)"
  by simp

lemma sextets:
  fixes x y z :: nat
  assumes "x < 256" "y < 256" "z < 256"
  shows "x div 4 < 64" "(x mod 4) * 16 < 64" "(x mod 4) * 16 + y div 16 < 64"
    "(y mod 16) * 4 < 64" "(y mod 16) * 4 + z div 64 < 64" "z mod 64 < 64"
proof -
  have a: "x mod 4 < 4" "y mod 16 < 16" by simp_all
  have b: "y div 16 < 16" "z div 64 < 4" "x div 4 < 64"
    using assms by (simp_all add: div_less_iff_less_mult)
  show "x div 4 < 64" by (rule b)
  show "(x mod 4) * 16 < 64" using a(1) by linarith
  show "(x mod 4) * 16 + y div 16 < 64" using a(1) b(1) by linarith
  show "(y mod 16) * 4 < 64" using a(2) by linarith
  show "(y mod 16) * 4 + z div 64 < 64" using a(2) b(2) by linarith
  show "z mod 64 < 64" by simp
qed

lemma octets:
  fixes x y z :: nat
  assumes "x < 256" "y < 256" "z < 256"
  shows "x div 4 * 4 + ((x mod 4) * 16) div 16 = x"
    "x div 4 * 4 + ((x mod 4) * 16 + y div 16) div 16 = x"
    "(((x mod 4) * 16 + y div 16) mod 16) * 16 + ((y mod 16) * 4) div 4 = y"
    "(((x mod 4) * 16 + y div 16) mod 16) * 16 + ((y mod 16) * 4 + z div 64) div 4 = y"
    "(((y mod 16) * 4 + z div 64) mod 4) * 64 + z mod 64 = z"
proof -
  have b: "y div 16 < 16" "z div 64 < 4"
    using assms by (simp_all add: div_less_iff_less_mult)
  show "x div 4 * 4 + ((x mod 4) * 16) div 16 = x" by simp
  show "x div 4 * 4 + ((x mod 4) * 16 + y div 16) div 16 = x"
    by (simp only: pack_div [OF b(1)] div_mult_mod_eq)
  show "(((x mod 4) * 16 + y div 16) mod 16) * 16 + ((y mod 16) * 4) div 4 = y"
    by (simp only: pack_mod [OF b(1)] nonzero_mult_div_cancel_right div_mult_mod_eq)
  show "(((x mod 4) * 16 + y div 16) mod 16) * 16 + ((y mod 16) * 4 + z div 64) div 4 = y"
    by (simp only: pack_mod [OF b(1)] pack_div [OF b(2)] div_mult_mod_eq)
  show "(((y mod 16) * 4 + z div 64) mod 4) * 64 + z mod 64 = z"
    by (simp only: pack_mod [OF b(2)] div_mult_mod_eq)
qed
lemma unat_byte: "unat (a :: byte) < 256"
  using unsigned_less [of a, where ?'a = nat] by simp

lemma b64encode_Nil_iff: "b64encode bs = [] \<longleftrightarrow> bs = []"
  by (induction bs rule: b64encode.induct) (simp_all add: Let_def)

lemma b64_round_trip: "b64decode (b64encode bs) = Some bs"
proof (induction bs rule: b64encode.induct)
  case 1
  then show ?case by simp
next
  case (2 a)
  from sextets [of "unat a" "unat a" "unat a", OF unat_byte unat_byte unat_byte]
    octets [of "unat a" "unat a" "unat a", OF unat_byte unat_byte unat_byte]
  show ?case by (simp add: Let_def b64index_b64char)
next
  case (3 a b)
  from sextets [of "unat a" "unat b" "unat b", OF unat_byte unat_byte unat_byte]
    octets [of "unat a" "unat b" "unat b", OF unat_byte unat_byte unat_byte]
  show ?case by (simp add: Let_def b64index_b64char b64char_not_pad)
next
  case (4 a b c rest)
  from sextets [of "unat a" "unat b" "unat c", OF unat_byte unat_byte unat_byte]
    octets [of "unat a" "unat b" "unat c", OF unat_byte unat_byte unat_byte] 4
  show ?case by (simp add: Let_def b64index_b64char b64char_not_pad b64encode_Nil_iff)
qed


lemma upload_art_success:
  assumes "upload_art db file = (Inr r, db')"
  shows "\<exists>d fname. db = Some d \<and> reachable d \<and> file_filename file = Some fname \<and>
    db' = Some (insert_one d ''upload''
      (Upload_dump \<lparr>up_filename = fname,
         up_content_type = content_type_or_default (file_content_type file),
         up_size = int (length (file_content file)),
         up_data_b64 = b64encode (file_content file)\<rparr>)) \<and>
    r = [(''upload_id'', VStr (oid_str (new_oid (next_id d))))]"
  using assms
  by (auto simp: upload_art_def Let_def Upload_init_def create_document_def
      split: option.splits if_splits)

text \<open>
  C6. For every upload that succeeds, of a payload of \<open>N\<close> bytes: the record appended to
  the collection \<open>upload\<close> has \<open>size = N\<close>, and its \<open>data_b64\<close> is a string whose base64
  decoding is exactly the payload.
\<close>

theorem upload_round_trip:
  assumes "upload_art db file = (Inr r, db')"
  shows "\<exists>d d' doc s.
    db = Some d \<and> db' = Some d' \<and>
    collection d' ''upload'' = collection d ''upload'' @ [(new_oid (next_id d), doc)] \<and>
    map_of doc ''size'' = Some (VInt (int (length (file_content file)))) \<and>
    map_of doc ''data_b64'' = Some (VStr s) \<and>
    b64decode s = Some (file_content file)"
proof -
  from upload_art_success [OF assms] obtain d fname where
    u: "db = Some d"
      "db' = Some (insert_one d ''upload''
      (Upload_dump \<lparr>up_filename = fname,
         up_content_type = content_type_or_default (file_content_type file),
         up_size = int (length (file_content file)),
         up_data_b64 = b64encode (file_content file)\<rparr>))"
    by blast
  show ?thesis
    apply (rule exI [of _ d])
    apply (rule exI [of _ "insert_one d ''upload''
      (Upload_dump \<lparr>up_filename = fname,
         up_content_type = content_type_or_default (file_content_type file),
         up_size = int (length (file_content file)),
         up_data_b64 = b64encode (file_content file)\<rparr>)"])
    apply (rule exI [of _ "Upload_dump \<lparr>up_filename = fname,
         up_content_type = content_type_or_default (file_content_type file),
         up_size = int (length (file_content file)),
         up_data_b64 = b64encode (file_content file)\<rparr>"])
    apply (rule exI [of _ "b64encode (file_content file)"])
    using u by (simp add: insert_one_collection Upload_dump_def b64_round_trip)
qed

lemma b64encode_hi: "b64encode [72, 105, 33, 10] = ''SGkhCg==''"
proof -
  have "map (of_char :: char \<Rightarrow> nat) (b64encode [72, 105, 33, 10]) = map of_char ''SGkhCg==''"
    by (simp add: b64char_def Let_def)
  moreover have "inj (of_char :: char \<Rightarrow> nat)"
    by (rule injI) simp
  ultimately show ?thesis by (simp only: inj_map_eq_map)
qed

lemma upload_hi:
  "upload_art (Some empty_db)
     \<lparr>file_filename = Some ''hi.png'', file_content_type = None,
      file_content = [72, 105, 33, 10]\<rparr> =
   (Inr [(''upload_id'', VStr (oid_str (new_oid 0)))],
    Some (insert_one empty_db ''upload''
      [(''filename'', VStr ''hi.png''), (''content_type'', VStr ''application/octet-stream''),
       (''size'', VInt 4), (''data_b64'', VStr ''SGkhCg=='')]))"
  by (simp add: upload_art_def Upload_init_def content_type_or_default_def Upload_dump_def
      create_document_def doc_ok_def empty_db_def b64encode_hi Let_def
      del: b64encode.simps)

text \<open>The four bytes \<^verbatim>\<open>Hi!\<close> and a line feed: size 4, stored as \<^verbatim>\<open>SGkhCg==\<close>, which decodes to the
  four bytes.\<close>

theorem upload_round_trip_witness:
  "fst (upload_art (Some empty_db)
     \<lparr>file_filename = Some ''hi.png'', file_content_type = None,
      file_content = [72, 105, 33, 10]\<rparr>) = Inr [(''upload_id'', VStr (oid_str (new_oid 0)))] \<and>
   (\<exists>d' doc s.
     snd (upload_art (Some empty_db)
       \<lparr>file_filename = Some ''hi.png'', file_content_type = None,
        file_content = [72, 105, 33, 10]\<rparr>) = Some d' \<and>
     collection d' ''upload'' = [(new_oid 0, doc)] \<and>
     map_of doc ''size'' = Some (VInt 4) \<and>
     map_of doc ''data_b64'' = Some (VStr s) \<and>
     b64decode s = Some [72, 105, 33, 10])"
  using upload_round_trip [OF upload_hi]
  by (simp add: upload_hi) (simp add: empty_db_def collection_def)



section \<open>Listing the styles\<close>

lemma insert_one_reachable [simp]: "reachable (insert_one d n data) = reachable d"
  by (simp add: insert_one_def)

lemma insert_one_next_id [simp]: "next_id (insert_one d n data) = Suc (next_id d)"
  by (simp add: insert_one_def)

lemma create_document_reachable:
  "reachable d \<Longrightarrow> doc_ok data \<Longrightarrow>
   create_document (Some d) n data =
     (Inr (oid_str (new_oid (next_id d))), Some (insert_one d n data))"
  by (simp add: create_document_def)

lemma create_seeds_three:
  "reachable d \<Longrightarrow>
   create_seeds (Some d) [a, b, c] =
     (Inr (), Some (insert_one (insert_one (insert_one d ''walletstyle'' (WalletStyle_dump a))
        ''walletstyle'' (WalletStyle_dump b)) ''walletstyle'' (WalletStyle_dump c)))"
  by (simp add: create_document_reachable doc_ok_WalletStyle_dump)

lemma build_seeds_ok: "build_seeds seed_args = Inr seed_args"
  by (simp add: seed_args_def WalletStyle_init_def ge0_def)

lemma get_documents_Inr:
  "get_documents db n = Inr ds \<Longrightarrow>
   \<exists>d. db = Some d \<and> reachable d \<and>
     ds = map (\<lambda>(i, f). \<lparr>doc_id = Some i, doc_fields = f\<rparr>) (collection d n)"
  by (auto simp: get_documents_def split: option.splits if_splits)

lemma id_to_str_stored:
  "map id_to_str (map (\<lambda>(i, f). \<lparr>doc_id = Some i, doc_fields = f\<rparr>) xs) =
   map (\<lambda>(i, f). \<lparr>doc_id = None, doc_fields = AList.update ''id'' (VStr (oid_str i)) f\<rparr>) xs"
  by (induction xs) (auto simp: id_to_str_def)

lemma list_styles_projects:
  assumes "list_styles db = (Styles docs, db')"
  shows "\<exists>d'. db' = Some d' \<and>
    docs = map (\<lambda>(i, f). \<lparr>doc_id = None, doc_fields = AList.update ''id'' (VStr (oid_str i)) f\<rparr>)
      (collection d' ''walletstyle'')"
proof -
  from assms obtain ds where "get_documents db' ''walletstyle'' = Inr ds" "docs = map id_to_str ds"
    by (auto simp: list_styles_def split: sum.splits if_splits prod.splits)
  with get_documents_Inr [of db' "''walletstyle''" ds] show ?thesis
    by (auto simp: id_to_str_def)
qed

lemma list_styles_empty:
  assumes "reachable d" "collection d ''walletstyle'' = []"
  shows "list_styles (Some d) =
    (Styles (map (\<lambda>(k, w). \<lparr>doc_id = None,
         doc_fields = WalletStyle_dump w @ [(''id'', VStr (oid_str (new_oid (next_id d + k))))]\<rparr>)
       (zip [0, 1, 2] seed_args)),
     Some (insert_one (insert_one (insert_one d
        ''walletstyle'' (WalletStyle_dump (seed_args ! 0)))
        ''walletstyle'' (WalletStyle_dump (seed_args ! 1)))
        ''walletstyle'' (WalletStyle_dump (seed_args ! 2))))"
proof -
  obtain a b c where abc: "seed_args = [a, b, c]" by (simp add: seed_args_def)
  have upd: "AList.update ''id'' v (WalletStyle_dump w) = WalletStyle_dump w @ [(''id'', v)]"
    for v w by (simp add: WalletStyle_dump_def)
  have g0: "get_documents (Some d) ''walletstyle'' = Inr []"
    using assms by (simp add: get_documents_def)
  let ?d3 = "insert_one (insert_one (insert_one d ''walletstyle'' (WalletStyle_dump a))
        ''walletstyle'' (WalletStyle_dump b)) ''walletstyle'' (WalletStyle_dump c)"
  have c3: "collection ?d3 ''walletstyle'' =
      [(new_oid (next_id d), WalletStyle_dump a),
       (new_oid (Suc (next_id d)), WalletStyle_dump b),
       (new_oid (Suc (Suc (next_id d))), WalletStyle_dump c)]"
    using assms(2) by (simp add: insert_one_collection)
  have g3: "get_documents (Some ?d3) ''walletstyle'' =
      Inr (map (\<lambda>(i, f). \<lparr>doc_id = Some i, doc_fields = f\<rparr>) (collection ?d3 ''walletstyle''))"
    using assms(1) by (simp add: get_documents_def)
  have bs: "build_seeds [a, b, c] = Inr [a, b, c]"
    using build_seeds_ok by (simp only: abc)
  have "list_styles (Some d) =
      (Styles (map id_to_str
         (map (\<lambda>(i, f). \<lparr>doc_id = Some i, doc_fields = f\<rparr>) (collection ?d3 ''walletstyle''))),
       Some ?d3)"
    unfolding list_styles_def g0 abc
    by (simp add: bs create_seeds_three [OF assms(1)] g3
        del: build_seeds.simps create_seeds.simps)
  then show ?thesis
    unfolding id_to_str_stored c3 by (simp add: abc upd)
qed


lemma seed_titles:
  "map ws_title seed_args =
     [''Carbon Fiber Slim Wallet'', ''Aluminum Slim Wallet'', ''Titanium Slim Wallet'']"
  by (simp add: seed_args_def)

text \<open>
  C5. Listing the styles on a reachable store whose catalogue is empty writes exactly the
  three default styles (Carbon Fiber, Aluminum and Titanium slim wallets) and returns
  them, each with the fields of the seed and, after them, the new identifier as a string
  under \<open>id\<close>. And whenever the listing returns styles, they are the records of the
  catalogue, none with a raw \<open>_id\<close> left and each with its identifier as a string under
  \<open>id\<close>.
\<close>

theorem list_styles_seeds_and_projects:
  "(\<forall>d. reachable d \<and> collection d ''walletstyle'' = [] \<longrightarrow>
      (\<exists>d'. list_styles (Some d) =
          (Styles (map (\<lambda>(k, w). \<lparr>doc_id = None,
               doc_fields = WalletStyle_dump w @
                 [(''id'', VStr (oid_str (new_oid (next_id d + k))))]\<rparr>)
             (zip [0, 1, 2] seed_args)),
           Some d') \<and>
         collection d' ''walletstyle'' =
           map (\<lambda>(k, w). (new_oid (next_id d + k), WalletStyle_dump w)) (zip [0, 1, 2] seed_args))) \<and>
   map ws_title seed_args =
     [''Carbon Fiber Slim Wallet'', ''Aluminum Slim Wallet'', ''Titanium Slim Wallet''] \<and>
   (\<forall>db docs db'. list_styles db = (Styles docs, db') \<longrightarrow>
      (\<exists>d'. db' = Some d' \<and>
         docs = map (\<lambda>(i, f). \<lparr>doc_id = None,
                   doc_fields = AList.update ''id'' (VStr (oid_str i)) f\<rparr>)
                 (collection d' ''walletstyle'')))"
proof (intro conjI allI impI)
  fix d
  assume a: "reachable d \<and> collection d ''walletstyle'' = []"
  let ?d' = "insert_one (insert_one (insert_one d
        ''walletstyle'' (WalletStyle_dump (seed_args ! 0)))
        ''walletstyle'' (WalletStyle_dump (seed_args ! 1)))
        ''walletstyle'' (WalletStyle_dump (seed_args ! 2))"
  have "collection ?d' ''walletstyle'' =
      map (\<lambda>(k, w). (new_oid (next_id d + k), WalletStyle_dump w)) (zip [0, 1, 2] seed_args)"
    using a by (simp add: insert_one_collection seed_args_def)
  with list_styles_empty [of d] a
  show "\<exists>d'. list_styles (Some d) =
          (Styles (map (\<lambda>(k, w). \<lparr>doc_id = None,
               doc_fields = WalletStyle_dump w @
                 [(''id'', VStr (oid_str (new_oid (next_id d + k))))]\<rparr>)
             (zip [0, 1, 2] seed_args)),
           Some d') \<and>
         collection d' ''walletstyle'' =
           map (\<lambda>(k, w). (new_oid (next_id d + k), WalletStyle_dump w)) (zip [0, 1, 2] seed_args)"
    by (intro exI [of _ ?d']) simp
next
  show "map ws_title seed_args =
     [''Carbon Fiber Slim Wallet'', ''Aluminum Slim Wallet'', ''Titanium Slim Wallet'']"
    by (rule seed_titles)
next
  fix db docs db'
  assume "list_styles db = (Styles docs, db')"
  then show "\<exists>d'. db' = Some d' \<and>
         docs = map (\<lambda>(i, f). \<lparr>doc_id = None,
                   doc_fields = AList.update ''id'' (VStr (oid_str i)) f\<rparr>)
                 (collection d' ''walletstyle'')"
    by (rule list_styles_projects)
qed

text \<open>On the store with no collection yet: three styles come back, none with a raw
  identifier, the first one the Carbon Fiber wallet at 59.0.\<close>

theorem list_styles_seeds_and_projects_witness:
  "\<exists>docs d'. list_styles (Some empty_db) = (Styles docs, Some d') \<and>
     length docs = 3 \<and>
     map doc_id docs = [None, None, None] \<and>
     map (\<lambda>s. map_of (doc_fields s) ''title'') docs =
       [Some (VStr ''Carbon Fiber Slim Wallet''), Some (VStr ''Aluminum Slim Wallet''),
        Some (VStr ''Titanium Slim Wallet'')] \<and>
     map (\<lambda>s. map_of (doc_fields s) ''id'') docs =
       [Some (VStr (oid_str (new_oid 0))), Some (VStr (oid_str (new_oid 1))),
        Some (VStr (oid_str (new_oid 2)))] \<and>
     map_of (doc_fields (docs ! 0)) ''price'' = Some (VFloat (Fin 59)) \<and>
     length (collection d' ''walletstyle'') = 3"
proof -
  have "reachable empty_db \<and> collection empty_db ''walletstyle'' = []"
    by (simp add: empty_db_def collection_def)
  with list_styles_seeds_and_projects [THEN conjunct1, rule_format, of empty_db]
  obtain d' where
    l: "list_styles (Some empty_db) =
          (Styles (map (\<lambda>(k, w). \<lparr>doc_id = None,
               doc_fields = WalletStyle_dump w @
                 [(''id'', VStr (oid_str (new_oid (next_id empty_db + k))))]\<rparr>)
             (zip [0, 1, 2] seed_args)),
           Some d')"
    and c: "collection d' ''walletstyle'' =
           map (\<lambda>(k, w). (new_oid (next_id empty_db + k), WalletStyle_dump w))
             (zip [0, 1, 2] seed_args)"
    by blast
  show ?thesis
    apply (rule exI [of _ "map (\<lambda>(k, w). \<lparr>doc_id = None,
               doc_fields = WalletStyle_dump w @
                 [(''id'', VStr (oid_str (new_oid (next_id empty_db + k))))]\<rparr>)
             (zip [0, 1, 2] seed_args)"])
    apply (rule exI [of _ d'])
    apply (simp only: l c)
    apply (simp add: seed_args_def WalletStyle_dump_def empty_db_def)
    done
qed


end
